theory Spec2Isabelle
  imports Main
begin

section \<open>Python values used by the algorithm\<close>

text \<open>
  The repository is one Python module with an orchestrator \<open>central\<close>, a worker
  \<open>cohort_diagnostics\<close> and the helper \<open>_create_cohort_query\<close>. Exceptions are
  values of \<open>error\<close>; a function that may raise returns \<open>error + 'a\<close>.
  The calls to \<open>info\<close> only write to the log: they return nothing, read nothing back and are
  left out of the model.
\<close>

datatype error = ValueError | TypeError | IndexError | ExternalError string

subsection \<open>Decimal formatting of integers\<close>

definition digit_char :: "nat \<Rightarrow> char" where
  "digit_char d = ''0123456789'' ! d"

fun digits_of :: "nat \<Rightarrow> string" where
  "digits_of n = (if n < 10 then [digit_char n] else digits_of (n div 10) @ [digit_char (n mod 10)])"

declare digits_of.simps [simp del]

text \<open>\<open>str(i)\<close>, as the replacement field \<open>{i}\<close> of an f-string renders an int.\<close>

definition str_int :: "int \<Rightarrow> string" where
  "str_int i = (if i < 0 then ''-'' @ digits_of (nat (- i)) else digits_of (nat i))"

text \<open>
  The format specification \<open>0wd\<close> (\<open>{i:04d}\<close>, \<open>{i:03d}\<close>, \<open>{i:06d}\<close>): the sign first,
  then zeros up to a total width of \<open>w\<close>, then the digits. A number that needs more than
  \<open>w\<close> characters is written in full.
\<close>

definition fmt_0d :: "nat \<Rightarrow> int \<Rightarrow> string" where
  "fmt_0d w i =
     (let sign = (if i < 0 then ''-'' else '''');
          ds = digits_of (nat \<bar>i\<bar>)
      in sign @ replicate (w - length sign - length ds) CHR ''0'' @ ds)"

subsection \<open>Floats read from a string of digits\<close>

text \<open>
  \<open>float(s)\<close> is needed only for strings made of decimal digits and minus signs, the only
  characters the identifier format produces. On those strings Python accepts an optional
  leading minus sign followed by at least one digit and raises ValueError otherwise. The
  value is the IEEE 754 double nearest to the integer written (ties to the even significand),
  infinite from \<open>2 ^ 1024\<close> on. A float is modelled by the integer it holds.
\<close>

datatype pyfloat = Finite int | PosInf | NegInf

fun bit_length :: "nat \<Rightarrow> nat" where
  "bit_length n = (if n = 0 then 0 else Suc (bit_length (n div 2)))"

declare bit_length.simps [simp del]

definition round_to_double :: "nat \<Rightarrow> pyfloat" where
  "round_to_double n =
     (if n < 2 ^ 53 then Finite (int n)
      else
        let e = bit_length n - 53;
            q = n div 2 ^ e;
            r = n mod 2 ^ e;
            half = 2 ^ (e - 1);
            m = (if half < r \<or> (r = half \<and> odd q) then q + 1 else q)
        in if 2 ^ 1024 \<le> m * 2 ^ e then PosInf else Finite (int (m * 2 ^ e)))"

definition is_digit :: "char \<Rightarrow> bool" where
  "is_digit c = (c \<in> set ''0123456789'')"

definition digit_value :: "char \<Rightarrow> nat" where
  "digit_value c = of_char c - 48"

definition dec_value :: "string \<Rightarrow> nat" where
  "dec_value s = foldl (\<lambda>a c. 10 * a + digit_value c) 0 s"

fun negate :: "pyfloat \<Rightarrow> pyfloat" where
  "negate (Finite v) = Finite (- v)"
| "negate PosInf = NegInf"
| "negate NegInf = PosInf"

definition py_float :: "string \<Rightarrow> error + pyfloat" where
  "py_float s =
     (case s of
        [] \<Rightarrow> Inl ValueError
      | c # cs \<Rightarrow>
          if c = CHR ''-'' then
            (if cs \<noteq> [] \<and> list_all is_digit cs
             then Inr (negate (round_to_double (dec_value cs))) else Inl ValueError)
          else if list_all is_digit s then Inr (round_to_double (dec_value s))
          else Inl ValueError)"

section \<open>The worker: identifiers\<close>

record run_meta =
  node_id :: int
  task_id :: int

text \<open>A list comprehension whose element expression may raise: the first failure ends it.\<close>

fun collect :: "('a \<Rightarrow> error + 'b) \<Rightarrow> 'a list \<Rightarrow> error + 'b list" where
  "collect f [] = Inr []"
| "collect f (x # xs) =
     (case f x of
        Inl e \<Rightarrow> Inl e
      | Inr y \<Rightarrow> (case collect f xs of Inl e \<Rightarrow> Inl e | Inr ys \<Rightarrow> Inr (y # ys)))"

text \<open>\<open>float(f"{meta_run.node_id}{meta_run.task_id:04d}{i:03d}")\<close>\<close>

definition cohort_id :: "run_meta \<Rightarrow> nat \<Rightarrow> error + pyfloat" where
  "cohort_id meta_run i =
     py_float (str_int (node_id meta_run) @ fmt_0d 4 (task_id meta_run) @ fmt_0d 3 (int i))"

definition cohort_ids :: "run_meta \<Rightarrow> nat \<Rightarrow> error + pyfloat list" where
  "cohort_ids meta_run n = collect (cohort_id meta_run) [0..<n]"

text \<open>\<open>f"cohort_{meta_run.task_id}_{meta_run.node_id}"\<close>\<close>

definition cohort_table :: "run_meta \<Rightarrow> string" where
  "cohort_table meta_run =
     ''cohort_'' @ str_int (task_id meta_run) @ ''_'' @ str_int (node_id meta_run)"

section \<open>The outside world\<close>

text \<open>
  Both functions work through libraries and services whose code is not part of the
  repository. An outside function is a parameter of the model and may fail. One that is
  handed the server, the database connection or a file path acts on a state the program
  does not own: it is also handed the calls made so far, so its answer may depend on
  everything that happened before. One that is handed values only (the query builder, the
  naming, conversion and settings helpers, the serialization) computes from its arguments.
  The state of a run is the list of outside calls made, oldest first.
\<close>

definition ext_call :: "'c \<Rightarrow> ('c list \<Rightarrow> error + 'a) \<Rightarrow> 'c list \<Rightarrow> (error + 'a) \<times> 'c list" where
  "ext_call c f h = (f h, h @ [c])"

section \<open>The worker \<open>cohort_diagnostics\<close>\<close>

text \<open>
  \<open>meta_omop\<close>: the two schema names and the export folder, a path kept as its list of parts
  (\<open>p / "exports"\<close> appends a part; \<open>str\<close> of a path is the path in textual form and is
  modelled by the path).
\<close>

record omop_meta =
  cdm_schema :: string
  results_schema :: string
  export_folder :: "string list"

text \<open>
  The work-item table \<open>pd.DataFrame({...})\<close>, held as its rows. The payload of a cohort
  definition is opaque (\<open>'j\<close>); \<open>cohort_definitions\<close> is the sequence of those payloads.
\<close>

record 'j cohort_row =
  cohortId :: pyfloat
  cohortName :: string
  json :: 'j
  sql :: string
  logicDescription :: "string option"
  generateStats :: bool

text \<open>
  \<open>pd.DataFrame\<close> applied to a dict of six lists: pandas raises ValueError ("All arrays must
  be of the same length") unless the columns have one length, and otherwise row \<open>k\<close> holds
  the \<open>k\<close>-th entry of every column.
\<close>

definition DataFrame ::
  "pyfloat list \<Rightarrow> string list \<Rightarrow> 'j list \<Rightarrow> string list \<Rightarrow> string option list \<Rightarrow> bool list
    \<Rightarrow> error + 'j cohort_row list" where
  "DataFrame ids names jsons sqls descriptions stats =
     (if length names = length ids \<and> length jsons = length ids \<and> length sqls = length ids
         \<and> length descriptions = length ids \<and> length stats = length ids
      then Inr (map (\<lambda>k. \<lparr>cohortId = ids ! k, cohortName = names ! k, json = jsons ! k,
                            sql = sqls ! k, logicDescription = descriptions ! k,
                            generateStats = stats ! k\<rparr>) [0..<length ids])
      else Inl ValueError)"

text \<open>
  The keyword arguments of \<open>execute_diagnostics\<close>: the fourteen the worker names, then the
  caller's \<open>diagnostics_settings\<close> expanded by \<open>**\<close>. Objects handed between the libraries
  (the connection, R values) are opaque (\<open>'r\<close>), option values are opaque (\<open>'v\<close>).
\<close>

record ('v, 'r) diagnostics_args =
  kw_cohort_definition_set :: 'r
  kw_export_folder :: "string list"
  kw_database_id :: int
  kw_database_name :: string
  kw_database_description :: string
  kw_cohort_database_schema :: string
  kw_connection :: 'r
  kw_cdm_database_schema :: string
  kw_cohort_table :: string
  kw_cohort_table_names :: 'r
  kw_vocabulary_database_schema :: string
  kw_cohort_ids :: "int list option"
  kw_cdm_version :: int
  kw_temporal_covariate_settings :: 'r
  kw_more :: "(string \<times> 'v) list"

definition named_keywords :: "string list" where
  "named_keywords =
     [''cohort_definition_set'', ''export_folder'', ''database_id'', ''database_name'',
      ''database_description'', ''cohort_database_schema'', ''connection'',
      ''cdm_database_schema'', ''cohort_table'', ''cohort_table_names'',
      ''vocabulary_database_schema'', ''cohort_ids'', ''cdm_version'',
      ''temporal_covariate_settings'']"

datatype ('j, 'v, 'r) call =
    CohortExpressionFromJson 'j
  | CreateGenerateOptions bool
  | BuildCohortQuery 'r 'r
  | GetCohortTableNames string
  | CreateCohortTables 'r string 'r
  | ConvertToR "'j cohort_row list"
  | GenerateCohortSet 'r string string 'r 'r
  | CreateTemporalCovariateSettings "(string \<times> 'v) list"
  | ExecuteDiagnostics "('v, 'r) diagnostics_args"
  | ReadCsv "string list"

text \<open>
  The libraries: \<open>circe\<close>, \<open>cohort_generator\<close>, \<open>ohdsi_common\<close>, \<open>feature_extraction\<close>,
  \<open>ohdsi_cohort_diagnostics\<close> and, from pandas, \<open>read_csv\<close> and \<open>to_json\<close> (on the frame
  read, of the opaque type \<open>'d\<close>). Positional parameters follow the order of the keywords in
  the source.
\<close>

record ('j, 'v, 'r, 'd) world =
  cohort_expression_from_json :: "'j \<Rightarrow> error + 'r"
  create_generate_options :: "bool \<Rightarrow> error + 'r"
  build_cohort_query :: "'r \<Rightarrow> 'r \<Rightarrow> error + string list"
  get_cohort_table_names :: "string \<Rightarrow> error + 'r"
  create_cohort_tables :: "('j, 'v, 'r) call list \<Rightarrow> 'r \<Rightarrow> string \<Rightarrow> 'r \<Rightarrow> error + unit"
  convert_to_r :: "'j cohort_row list \<Rightarrow> error + 'r"
  generate_cohort_set ::
    "('j, 'v, 'r) call list \<Rightarrow> 'r \<Rightarrow> string \<Rightarrow> string \<Rightarrow> 'r \<Rightarrow> 'r \<Rightarrow> error + unit"
  create_temporal_covariate_settings :: "(string \<times> 'v) list \<Rightarrow> error + 'r"
  execute_diagnostics :: "('j, 'v, 'r) call list \<Rightarrow> ('v, 'r) diagnostics_args \<Rightarrow> error + unit"
  read_csv :: "('j, 'v, 'r) call list \<Rightarrow> string list \<Rightarrow> error + 'd"
  to_json :: "'d \<Rightarrow> error + string"

text \<open>
  \<open>_create_cohort_query\<close>: the expression, the options with \<open>generate_stats=True\<close>, the
  query sequence, and its element \<open>[0]\<close> (IndexError on an empty sequence).
\<close>

definition create_cohort_query ::
  "('j, 'v, 'r, 'd) world \<Rightarrow> 'j \<Rightarrow> ('j, 'v, 'r) call list
    \<Rightarrow> (error + string) \<times> ('j, 'v, 'r) call list" where
  "create_cohort_query W cohort_definition h =
     (case ext_call (CohortExpressionFromJson cohort_definition)
             (\<lambda>h. cohort_expression_from_json W cohort_definition) h of
        (Inl e, h1) \<Rightarrow> (Inl e, h1)
      | (Inr cohort_expression, h1) \<Rightarrow>
          (case ext_call (CreateGenerateOptions True)
                  (\<lambda>h. create_generate_options W True) h1 of
             (Inl e, h2) \<Rightarrow> (Inl e, h2)
           | (Inr options, h2) \<Rightarrow>
               (case ext_call (BuildCohortQuery cohort_expression options)
                       (\<lambda>h. build_cohort_query W cohort_expression options) h2 of
                  (Inl e, h3) \<Rightarrow> (Inl e, h3)
                | (Inr [], h3) \<Rightarrow> (Inl IndexError, h3)
                | (Inr (q # _), h3) \<Rightarrow> (Inr q, h3))))"

text \<open>\<open>[_create_cohort_query(cohort) for cohort in cohort_definitions]\<close>\<close>

fun create_queries ::
  "('j, 'v, 'r, 'd) world \<Rightarrow> 'j list \<Rightarrow> ('j, 'v, 'r) call list
    \<Rightarrow> (error + string list) \<times> ('j, 'v, 'r) call list" where
  "create_queries W [] h = (Inr [], h)"
| "create_queries W (cohort # cohorts) h =
     (case create_cohort_query W cohort h of
        (Inl e, h1) \<Rightarrow> (Inl e, h1)
      | (Inr q, h1) \<Rightarrow>
          (case create_queries W cohorts h1 of
             (Inl e, h2) \<Rightarrow> (Inl e, h2)
           | (Inr qs, h2) \<Rightarrow> (Inr (q # qs), h2)))"

text \<open>
  The first statements of \<open>cohort_diagnostics\<close>, up to the work-item table: the
  identifiers, then the entries of the dict in the order written (the queries are built
  before \<open>pd.DataFrame\<close> is entered).
\<close>

definition cohort_definition_set ::
  "('j, 'v, 'r, 'd) world \<Rightarrow> run_meta \<Rightarrow> 'j list \<Rightarrow> string list \<Rightarrow> ('j, 'v, 'r) call list
    \<Rightarrow> (error + 'j cohort_row list) \<times> ('j, 'v, 'r) call list" where
  "cohort_definition_set W meta_run cohort_definitions cohort_names h =
     (let n = length cohort_definitions in
      case cohort_ids meta_run n of
        Inl e \<Rightarrow> (Inl e, h)
      | Inr ids \<Rightarrow>
          (case create_queries W cohort_definitions h of
             (Inl e, h1) \<Rightarrow> (Inl e, h1)
           | (Inr sqls, h1) \<Rightarrow>
               (DataFrame ids cohort_names cohort_definitions sqls
                  (replicate n None) (replicate n True), h1)))"

definition cohort_diagnostics ::
  "('j, 'v, 'r, 'd) world \<Rightarrow> 'r \<Rightarrow> omop_meta \<Rightarrow> run_meta \<Rightarrow> 'j list \<Rightarrow> string list
    \<Rightarrow> (string \<times> 'v) list \<Rightarrow> (string \<times> 'v) list \<Rightarrow> ('j, 'v, 'r) call list
    \<Rightarrow> (error + string) \<times> ('j, 'v, 'r) call list" where
  "cohort_diagnostics W connection meta_omop meta_run cohort_definitions cohort_names
       temporal_covariate_settings diagnostics_settings h =
     (case cohort_definition_set W meta_run cohort_definitions cohort_names h of
        (Inl e, h1) \<Rightarrow> (Inl e, h1)
      | (Inr definition_set, h1) \<Rightarrow>
     (case ext_call (GetCohortTableNames (cohort_table meta_run))
             (\<lambda>h. get_cohort_table_names W (cohort_table meta_run)) h1 of
        (Inl e, h2) \<Rightarrow> (Inl e, h2)
      | (Inr cohort_table_names, h2) \<Rightarrow>
     (case ext_call (CreateCohortTables connection (results_schema meta_omop) cohort_table_names)
             (\<lambda>h. create_cohort_tables W h connection (results_schema meta_omop)
                     cohort_table_names) h2 of
        (Inl e, h3) \<Rightarrow> (Inl e, h3)
      | (Inr _, h3) \<Rightarrow>
     (case ext_call (ConvertToR definition_set) (\<lambda>h. convert_to_r W definition_set) h3 of
        (Inl e, h4) \<Rightarrow> (Inl e, h4)
      | (Inr r_definition_set, h4) \<Rightarrow>
     (case ext_call (GenerateCohortSet connection (cdm_schema meta_omop)
                       (results_schema meta_omop) cohort_table_names r_definition_set)
             (\<lambda>h. generate_cohort_set W h connection (cdm_schema meta_omop)
                     (results_schema meta_omop) cohort_table_names r_definition_set) h4 of
        (Inl e, h5) \<Rightarrow> (Inl e, h5)
      | (Inr _, h5) \<Rightarrow>
     (case ext_call (CreateTemporalCovariateSettings temporal_covariate_settings)
             (\<lambda>h. create_temporal_covariate_settings W temporal_covariate_settings) h5 of
        (Inl e, h6) \<Rightarrow> (Inl e, h6)
      | (Inr r_temporal_covariate_settings, h6) \<Rightarrow>
     (if \<exists>k \<in> set (map fst diagnostics_settings). k \<in> set named_keywords
      then (Inl TypeError, h6)
      else
        let args = \<lparr>kw_cohort_definition_set = r_definition_set,
                    kw_export_folder = export_folder meta_omop @ [''exports''],
                    kw_database_id = task_id meta_run,
                    kw_database_name = fmt_0d 6 (task_id meta_run),
                    kw_database_description = ''todo'',
                    kw_cohort_database_schema = results_schema meta_omop,
                    kw_connection = connection,
                    kw_cdm_database_schema = cdm_schema meta_omop,
                    kw_cohort_table = cohort_table meta_run,
                    kw_cohort_table_names = cohort_table_names,
                    kw_vocabulary_database_schema = cdm_schema meta_omop,
                    kw_cohort_ids = None,
                    kw_cdm_version = 5,
                    kw_temporal_covariate_settings = r_temporal_covariate_settings,
                    kw_more = diagnostics_settings\<rparr>
        in
     (case ext_call (ExecuteDiagnostics args) (\<lambda>h. execute_diagnostics W h args) h6 of
        (Inl e, h7) \<Rightarrow> (Inl e, h7)
      | (Inr _, h7) \<Rightarrow>
     (case ext_call (ReadCsv (export_folder meta_omop @ [''exports'', ''incidence_rate.csv'']))
             (\<lambda>h. read_csv W h (export_folder meta_omop @ [''exports'', ''incidence_rate.csv'']))
             h7 of
        (Inl e, h8) \<Rightarrow> (Inl e, h8)
      | (Inr df, h8) \<Rightarrow> (to_json W df, h8))))))))))"

section \<open>The orchestrator \<open>central\<close>\<close>

text \<open>
  \<open>organizations_to_include\<close> is a string (the default \<open>"ALL"\<close>) or a list; \<open>set\<close> of a
  string is the set of its one-character strings. The ids the server reports are ints. The
  server's JSON objects are records with the field the code reads (\<open>org["id"]\<close>,
  \<open>task["id"]\<close>).
\<close>

datatype pyval = PInt int | PStr string

datatype selector = SelStr string | SelList "pyval list"

fun py_set :: "selector \<Rightarrow> pyval set" where
  "py_set (SelStr s) = set (map (\<lambda>c. PStr [c]) s)"
| "py_set (SelList xs) = set xs"

record organization =
  org_id :: int

record task =
  created_id :: int

datatype ('j, 'v) kwarg =
    Definitions "'j list"
  | Names "string list"
  | Settings "(string \<times> 'v) list"

text \<open>The dict \<open>input_\<close>: its entries \<open>"method"\<close> and \<open>"kwargs"\<close>.\<close>

record ('j, 'v) task_input =
  method_name :: string
  kwargs :: "(string \<times> ('j, 'v) kwarg) list"

datatype ('j, 'v) client_call =
    OrganizationList
  | TaskCreate "('j, 'v) task_input" selector
  | WaitForResults int

record ('j, 'v, 'res) algorithm_client =
  organization_list :: "('j, 'v) client_call list \<Rightarrow> error + organization list"
  task_create ::
    "('j, 'v) client_call list \<Rightarrow> ('j, 'v) task_input \<Rightarrow> selector \<Rightarrow> error + task"
  wait_for_results :: "('j, 'v) client_call list \<Rightarrow> int \<Rightarrow> error + 'res"

datatype 'res central_result = MessageDict "(string \<times> string) list" | AllResults 'res

text \<open>
  The parameter \<open>organizations_to_include\<close> is optional: \<open>None\<close> is a call that leaves it
  out and gets the default.
\<close>

definition central ::
  "('j, 'v, 'res) algorithm_client \<Rightarrow> 'j list \<Rightarrow> string list \<Rightarrow> (string \<times> 'v) list
    \<Rightarrow> (string \<times> 'v) list \<Rightarrow> selector option \<Rightarrow> ('j, 'v) client_call list
    \<Rightarrow> (error + 'res central_result) \<times> ('j, 'v) client_call list" where
  "central client cohort_definitions cohort_names temporal_covariate_settings
       diagnostics_settings given h =
     (let organizations_to_include = (case given of None \<Rightarrow> SelStr ''ALL'' | Some s \<Rightarrow> s) in
      case ext_call OrganizationList (organization_list client) h of
        (Inl e, h1) \<Rightarrow> (Inl e, h1)
      | (Inr organizations, h1) \<Rightarrow>
          let ids = SelList (map (\<lambda>org. PInt (org_id org)) organizations) in
          if organizations_to_include \<noteq> SelStr ''ALL''
             \<and> \<not> py_set organizations_to_include \<subseteq> py_set ids
          then (Inr (MessageDict
                  [(''msg'', ''You specified an organization that is not part of the collaboration'')]),
                h1)
          else
            let ids = (if organizations_to_include \<noteq> SelStr ''ALL''
                       then organizations_to_include else ids);
                input = \<lparr>method_name = ''cohort_diagnostics'',
                         kwargs = [(''cohort_definitions'', Definitions cohort_definitions),
                                   (''cohort_names'', Names cohort_names),
                                   (''temporal_covariate_settings'',
                                      Settings temporal_covariate_settings),
                                   (''diagnostics_settings'', Settings diagnostics_settings)]\<rparr>
            in
            case ext_call (TaskCreate input ids) (\<lambda>h. task_create client h input ids) h1 of
              (Inl e, h2) \<Rightarrow> (Inl e, h2)
            | (Inr task, h2) \<Rightarrow>
                (case ext_call (WaitForResults (created_id task))
                        (\<lambda>h. wait_for_results client h (created_id task)) h2 of
                   (Inl e, h3) \<Rightarrow> (Inl e, h3)
                 | (Inr all_results, h3) \<Rightarrow> (Inr (AllResults all_results), h3)))"

section \<open>The documented digit layout\<close>

text \<open>
  No code of the repository takes an identifier apart. This definition follows the spec's
  words: the last three digits are the index, the four digits before them the task
  identifier, the remaining leading digits (with the sign) the node identifier.
\<close>

definition decompose_identifier :: "pyfloat \<Rightarrow> (int \<times> int \<times> int) option" where
  "decompose_identifier x =
     (case x of
        Finite v \<Rightarrow> Some (sgn v * (\<bar>v\<bar> div 10 ^ 7), \<bar>v\<bar> div 10 ^ 3 mod 10 ^ 4, \<bar>v\<bar> mod 10 ^ 3)
      | PosInf \<Rightarrow> None
      | NegInf \<Rightarrow> None)"

section \<open>Reading a list of outside calls\<close>

text \<open>
  The claims speak of the calls a run makes. These functions pick calls of one kind out of a
  list of calls; a run started after the calls \<open>h\<close> and ended after \<open>h'\<close> made the calls
  \<open>drop (length h) h'\<close>.
\<close>

fun task_creations :: "('j, 'v) client_call list \<Rightarrow> (('j, 'v) task_input \<times> selector) list" where
  "task_creations [] = []"
| "task_creations (TaskCreate input target # cs) = (input, target) # task_creations cs"
| "task_creations (OrganizationList # cs) = task_creations cs"
| "task_creations (WaitForResults t # cs) = task_creations cs"

fun waits :: "('j, 'v) client_call list \<Rightarrow> int list" where
  "waits [] = []"
| "waits (WaitForResults t # cs) = t # waits cs"
| "waits (OrganizationList # cs) = waits cs"
| "waits (TaskCreate input target # cs) = waits cs"

fun csv_reads :: "('j, 'v, 'r) call list \<Rightarrow> string list list" where
  "csv_reads [] = []"
| "csv_reads (ReadCsv path # cs) = path # csv_reads cs"
| "csv_reads (c # cs) = csv_reads cs"

text \<open>The three calls that take the database connection.\<close>

fun database_call :: "('j, 'v, 'r) call \<Rightarrow> bool" where
  "database_call (CreateCohortTables connection schema names) = True"
| "database_call (GenerateCohortSet connection cdm schema names definition_set) = True"
| "database_call (ExecuteDiagnostics args) = True"
| "database_call c = False"

text \<open>The calls of the query builder.\<close>

fun circe_call :: "('j, 'v, 'r) call \<Rightarrow> bool" where
  "circe_call (CohortExpressionFromJson d) = True"
| "circe_call (CreateGenerateOptions stats) = True"
| "circe_call (BuildCohortQuery expression options) = True"
| "circe_call c = False"

section \<open>A client and a world to run the model on\<close>

text \<open>
  A server that knows the organizations 1, 2 and 3, numbers every task 17 and answers a
  wait with two results.
\<close>

definition example_client :: "(nat, nat, string list) algorithm_client" where
  "example_client =
     \<lparr>organization_list = (\<lambda>h. Inr [\<lparr>org_id = 1\<rparr>, \<lparr>org_id = 2\<rparr>, \<lparr>org_id = 3\<rparr>]),
      task_create = (\<lambda>h input target. Inr \<lparr>created_id = 17\<rparr>),
      wait_for_results = (\<lambda>h t. Inr [''first'', ''second''])\<rparr>"

text \<open>
  Libraries that always succeed: the expression is the payload, the options are 1 for
  statistics and 0 without, two queries are generated for an expression, and the export that
  is read back holds \<open>rate\<close>.
\<close>

definition example_world :: "(nat, nat, nat, string) world" where
  "example_world =
     \<lparr>cohort_expression_from_json = (\<lambda>d. Inr d),
      create_generate_options = (\<lambda>stats. Inr (if stats then 1 else 0)),
      build_cohort_query =
        (\<lambda>expression options. Inr [replicate expression CHR ''q'', ''second'']),
      get_cohort_table_names = (\<lambda>name. Inr 7),
      create_cohort_tables = (\<lambda>h connection schema names. Inr ()),
      convert_to_r = (\<lambda>rows. Inr (length rows)),
      generate_cohort_set = (\<lambda>h connection cdm schema names definition_set. Inr ()),
      create_temporal_covariate_settings = (\<lambda>settings. Inr 8),
      execute_diagnostics = (\<lambda>h args. Inr ()),
      read_csv = (\<lambda>h path. Inr ''rate''),
      to_json = (\<lambda>df. Inr (''{'' @ df @ ''}''))\<rparr>"

section \<open>Decimal strings and their values\<close>

lemma is_digit_digit_char: "d < 10 \<Longrightarrow> is_digit (digit_char d)"
proof -
  assume "d < 10"
  then have "d < length ''0123456789''" by simp
  then have "''0123456789'' ! d \<in> set ''0123456789''" by (rule nth_mem)
  then show ?thesis unfolding is_digit_def digit_char_def .
qed

lemma digit_value_digit_char: "d < 10 \<Longrightarrow> digit_value (digit_char d) = d"
proof -
  assume "d < 10"
  then have "d \<in> {0,1,2,3,4,5,6,7,8,9}" by auto
  then show ?thesis
    unfolding digit_value_def digit_char_def by auto
qed

lemma digits_of_all_digits: "list_all is_digit (digits_of n)"
proof (induction n rule: digits_of.induct)
  case (1 n)
  show ?case
  proof (cases "n < 10")
    case True
    then show ?thesis by (simp add: digits_of.simps [of n] is_digit_digit_char)
  next
    case False
    with "1" show ?thesis by (simp add: digits_of.simps [of n] is_digit_digit_char)
  qed
qed

lemma digits_of_nonempty: "digits_of n \<noteq> []"
  by (subst digits_of.simps) simp

lemma dec_value_snoc: "dec_value (s @ [c]) = 10 * dec_value s + digit_value c"
  by (simp add: dec_value_def)

lemma dec_value_append: "dec_value (s @ t) = dec_value s * 10 ^ length t + dec_value t"
proof (induction t rule: rev_induct)
  case Nil
  show ?case by (simp add: dec_value_def)
next
  case (snoc c t)
  have "dec_value (s @ t @ [c]) = 10 * dec_value (s @ t) + digit_value c"
    using dec_value_snoc [of "s @ t" c] by simp
  also have "\<dots> = 10 * (dec_value s * 10 ^ length t + dec_value t) + digit_value c"
    by (simp add: snoc.IH)
  also have "\<dots> = dec_value s * 10 ^ length (t @ [c]) + dec_value (t @ [c])"
    by (simp add: dec_value_snoc algebra_simps)
  finally show ?case by simp
qed

lemma dec_value_digits_of: "dec_value (digits_of n) = n"
proof (induction n rule: digits_of.induct)
  case (1 n)
  show ?case
  proof (cases "n < 10")
    case True
    then show ?thesis
      by (simp add: digits_of.simps [of n] dec_value_def digit_value_digit_char)
  next
    case False
    then have "dec_value (digits_of n) = 10 * dec_value (digits_of (n div 10)) + digit_value (digit_char (n mod 10))"
      by (simp add: digits_of.simps [of n] dec_value_snoc)
    also have "\<dots> = 10 * (n div 10) + n mod 10"
      using False "1" by (simp add: digit_value_digit_char)
    finally show ?thesis by simp
  qed
qed

lemma dec_value_zeros: "dec_value (replicate k CHR ''0'' @ s) = dec_value s"
proof -
  have "dec_value (replicate k CHR ''0'') = 0"
  proof (induction k)
    case 0
    show ?case by (simp add: dec_value_def)
  next
    case (Suc k)
    have "replicate (Suc k) CHR ''0'' = replicate k CHR ''0'' @ [CHR ''0'']"
      by (simp add: replicate_append_same)
    then show ?case
      using Suc by (simp add: dec_value_snoc digit_value_def del: replicate_Suc)
  qed
  then show ?thesis by (simp add: dec_value_append)
qed

lemma length_digits_of_le: "0 < k \<Longrightarrow> n < 10 ^ k \<Longrightarrow> length (digits_of n) \<le> k"
proof (induction n arbitrary: k rule: digits_of.induct)
  case (1 n)
  show ?case
  proof (cases "n < 10")
    case True
    with "1.prems" show ?thesis by (simp add: digits_of.simps [of n])
  next
    case False
    with "1.prems" obtain j where k: "k = Suc j" by (cases k) auto
    with False "1.prems" have "0 < j" by (cases j) auto
    moreover have "n div 10 < 10 ^ j" using "1.prems" k by (simp add: less_mult_imp_div_less)
    ultimately have "length (digits_of (n div 10)) \<le> j" using "1.IH" False by simp
    with False k show ?thesis by (simp add: digits_of.simps [of n])
  qed
qed

lemma fmt_0d_nonneg:
  assumes "0 \<le> i"
  shows "fmt_0d w i = replicate (w - length (digits_of (nat i))) CHR ''0'' @ digits_of (nat i)"
  using assms by (simp add: fmt_0d_def Let_def)

lemma length_fmt_0d: "0 \<le> i \<Longrightarrow> 0 < w \<Longrightarrow> nat i < 10 ^ w \<Longrightarrow> length (fmt_0d w i) = w"
  using length_digits_of_le [of w "nat i"] by (simp add: fmt_0d_nonneg)

lemma dec_value_fmt_0d: "0 \<le> i \<Longrightarrow> dec_value (fmt_0d w i) = nat i"
  by (simp add: fmt_0d_nonneg dec_value_zeros dec_value_digits_of)

lemma fmt_0d_all_digits: "0 \<le> i \<Longrightarrow> list_all is_digit (fmt_0d w i)"
proof -
  assume "0 \<le> i"
  moreover have "is_digit CHR ''0''" by (simp add: is_digit_def)
  ultimately show ?thesis
    using digits_of_all_digits [of "nat i"] by (auto simp: fmt_0d_nonneg list_all_iff)
qed


lemma length_fmt_0d_max:
  "0 \<le> i \<Longrightarrow> length (fmt_0d w i) = max w (length (digits_of (nat i)))"
  by (simp add: fmt_0d_nonneg)

lemma collect_map:
  "(\<And>x. x \<in> set xs \<Longrightarrow> f x = Inr (g x)) \<Longrightarrow> collect f xs = Inr (map g xs)"
  by (induction xs) simp_all

lemma py_float_digits:
  assumes "s \<noteq> []" and "list_all is_digit s"
  shows "py_float s = Inr (round_to_double (dec_value s))"
proof -
  from assms obtain c cs where s: "s = c # cs" by (cases s) auto
  with assms have "is_digit c" by simp
  then have "c \<noteq> CHR ''-''" by (auto simp: is_digit_def)
  with s assms show ?thesis by (simp add: py_float_def)
qed

lemma py_float_minus_digits:
  assumes "s \<noteq> []" and "list_all is_digit s"
  shows "py_float (CHR ''-'' # s) = Inr (negate (round_to_double (dec_value s)))"
  using assms by (simp add: py_float_def)

lemma round_to_double_small: "n < 2 ^ 53 \<Longrightarrow> round_to_double n = Finite (int n)"
  by (simp add: round_to_double_def)

section \<open>The identifier as a number\<close>

lemma id_digits_all:
  "0 \<le> t \<Longrightarrow> list_all is_digit (digits_of a @ fmt_0d 4 t @ fmt_0d 3 (int i))"
  by (simp add: digits_of_all_digits fmt_0d_all_digits)

lemma id_digits_nonempty: "digits_of a @ fmt_0d 4 t @ fmt_0d 3 (int i) \<noteq> []"
  by (simp add: digits_of_nonempty)

lemma dec_value_id_digits:
  assumes "0 \<le> t"
  shows "dec_value (digits_of a @ fmt_0d 4 t @ fmt_0d 3 (int i)) =
           a * 10 ^ (max 4 (length (digits_of (nat t))) + max 3 (length (digits_of i)))
           + nat t * 10 ^ max 3 (length (digits_of i)) + i"
proof -
  have "dec_value (digits_of a @ fmt_0d 4 t @ fmt_0d 3 (int i)) =
          a * 10 ^ (length (fmt_0d 4 t) + length (fmt_0d 3 (int i)))
          + nat t * 10 ^ length (fmt_0d 3 (int i)) + i"
    using assms
    by (simp add: dec_value_append dec_value_fmt_0d dec_value_digits_of power_add algebra_simps)
  moreover have "length (fmt_0d 4 t) = max 4 (length (digits_of (nat t)))"
    using assms by (rule length_fmt_0d_max)
  moreover have "length (fmt_0d 3 (int i)) = max 3 (length (digits_of i))"
    using length_fmt_0d_max [of "int i" 3] by simp
  ultimately show ?thesis by simp
qed

lemma dec_value_id_digits_in_range:
  assumes "0 \<le> t" "t \<le> 9999" "i \<le> 999"
  shows "dec_value (digits_of a @ fmt_0d 4 t @ fmt_0d 3 (int i)) = a * 10 ^ 7 + nat t * 10 ^ 3 + i"
proof -
  have "length (fmt_0d 4 t) = 4" using assms by (intro length_fmt_0d) auto
  moreover have "length (fmt_0d 3 (int i)) = 3" using assms by (intro length_fmt_0d) auto
  moreover have "dec_value (digits_of a @ fmt_0d 4 t @ fmt_0d 3 (int i)) =
          a * 10 ^ (length (fmt_0d 4 t) + length (fmt_0d 3 (int i)))
          + nat t * 10 ^ length (fmt_0d 3 (int i)) + i"
    using assms
    by (simp add: dec_value_append dec_value_fmt_0d dec_value_digits_of power_add algebra_simps)
  ultimately show ?thesis by simp
qed

lemma cohort_id_nonneg:
  assumes "0 \<le> node_id m" "0 \<le> task_id m"
  shows "cohort_id m i =
           Inr (round_to_double (dec_value
                  (digits_of (nat (node_id m)) @ fmt_0d 4 (task_id m) @ fmt_0d 3 (int i))))"
proof -
  have "str_int (node_id m) = digits_of (nat (node_id m))"
    using assms by (simp add: str_int_def)
  then show ?thesis
    unfolding cohort_id_def
    using py_float_digits [OF id_digits_nonempty id_digits_all [OF assms(2)]] by simp
qed

lemma cohort_id_neg:
  assumes "node_id m < 0" "0 \<le> task_id m"
  shows "cohort_id m i =
           Inr (negate (round_to_double (dec_value
                  (digits_of (nat (- node_id m)) @ fmt_0d 4 (task_id m) @ fmt_0d 3 (int i)))))"
proof -
  have "str_int (node_id m) = CHR ''-'' # digits_of (nat (- node_id m))"
    using assms by (simp add: str_int_def)
  then show ?thesis
    unfolding cohort_id_def
    using py_float_minus_digits [OF id_digits_nonempty id_digits_all [OF assms(2)]] by simp
qed

lemma cohort_id_in_range_nonneg:
  assumes "0 \<le> node_id m" "node_id m \<le> 900719924" "0 \<le> task_id m" "task_id m \<le> 9999"
    and "i \<le> 999"
  shows "cohort_id m i = Inr (Finite (node_id m * 10 ^ 7 + task_id m * 10 ^ 3 + int i))"
proof -
  let ?v = "nat (node_id m) * 10 ^ 7 + nat (task_id m) * 10 ^ 3 + i"
  have v: "dec_value (digits_of (nat (node_id m)) @ fmt_0d 4 (task_id m) @ fmt_0d 3 (int i)) = ?v"
    using assms by (intro dec_value_id_digits_in_range) auto
  have "?v < 2 ^ 53" using assms by simp
  then have "round_to_double ?v = Finite (int ?v)" by (rule round_to_double_small)
  moreover have "int ?v = node_id m * 10 ^ 7 + task_id m * 10 ^ 3 + int i"
    using assms by simp
  ultimately show ?thesis
    using cohort_id_nonneg [OF assms(1) assms(3), of i] v by simp
qed

lemma cohort_id_in_range_neg:
  assumes "node_id m < 0" "- 900719924 \<le> node_id m" "0 \<le> task_id m" "task_id m \<le> 9999"
    and "i \<le> 999"
  shows "cohort_id m i = Inr (Finite (- (- node_id m * 10 ^ 7 + task_id m * 10 ^ 3 + int i)))"
proof -
  let ?v = "nat (- node_id m) * 10 ^ 7 + nat (task_id m) * 10 ^ 3 + i"
  have v: "dec_value (digits_of (nat (- node_id m)) @ fmt_0d 4 (task_id m) @ fmt_0d 3 (int i)) = ?v"
    using assms by (intro dec_value_id_digits_in_range) auto
  have "?v < 2 ^ 53" using assms by simp
  then have "round_to_double ?v = Finite (int ?v)" by (rule round_to_double_small)
  moreover have "int ?v = - node_id m * 10 ^ 7 + task_id m * 10 ^ 3 + int i"
    using assms by simp
  ultimately show ?thesis
    using cohort_id_neg [OF assms(1) assms(3), of i] v by simp
qed

lemma block_div_mod:
  fixes a r c :: int
  assumes "0 \<le> r" "r < c"
  shows "(a * c + r) div c = a" and "(a * c + r) mod c = r"
proof -
  from assms have c: "c \<noteq> 0" by simp
  have "(a * c + r) div c = a + r div c" using c by (rule div_mult_self3)
  also have "r div c = 0" using assms by (rule div_pos_pos_trivial)
  finally show "(a * c + r) div c = a" by simp
  have "(a * c + r) mod c = r mod c" by (rule mod_mult_self3)
  also have "r mod c = r" using assms by (rule mod_pos_pos_trivial)
  finally show "(a * c + r) mod c = r" .
qed

lemma digits_split:
  fixes a t i :: int
  assumes "0 \<le> t" "t \<le> 9999" "0 \<le> i" "i \<le> 999"
  shows "(a * 10 ^ 7 + t * 10 ^ 3 + i) div 10 ^ 7 = a"
    and "(a * 10 ^ 7 + t * 10 ^ 3 + i) div 10 ^ 3 mod 10 ^ 4 = t"
    and "(a * 10 ^ 7 + t * 10 ^ 3 + i) mod 10 ^ 3 = i"
proof -
  have r: "0 \<le> t * 10 ^ 3 + i" "t * 10 ^ 3 + i < 10 ^ 7" using assms by simp_all
  have "(a * 10 ^ 7 + (t * 10 ^ 3 + i)) div 10 ^ 7 = a" using r by (rule block_div_mod)
  then show "(a * 10 ^ 7 + t * 10 ^ 3 + i) div 10 ^ 7 = a" by (simp add: add.assoc)
  have e: "a * 10 ^ 7 + t * 10 ^ 3 + i = (a * 10 ^ 4 + t) * 10 ^ 3 + i" by simp
  have i: "0 \<le> i" "i < 10 ^ 3" using assms by simp_all
  have t: "0 \<le> t" "t < 10 ^ 4" using assms by simp_all
  have "((a * 10 ^ 4 + t) * 10 ^ 3 + i) div 10 ^ 3 = a * 10 ^ 4 + t" using i by (rule block_div_mod)
  moreover have "(a * 10 ^ 4 + t) mod 10 ^ 4 = t" using t by (rule block_div_mod)
  ultimately show "(a * 10 ^ 7 + t * 10 ^ 3 + i) div 10 ^ 3 mod 10 ^ 4 = t" by (simp only: e)
  have "((a * 10 ^ 4 + t) * 10 ^ 3 + i) mod 10 ^ 3 = i" using i by (rule block_div_mod)
  then show "(a * 10 ^ 7 + t * 10 ^ 3 + i) mod 10 ^ 3 = i" by (simp only: e)
qed

lemma pair_inj:
  fixes t1 t2 :: int and i1 i2 :: nat
  assumes "i1 \<le> 999" "i2 \<le> 999" and eq: "t1 * 10 ^ 3 + int i1 = t2 * 10 ^ 3 + int i2"
  shows "t1 = t2 \<and> i1 = i2"
proof -
  have a: "0 \<le> int i1" "int i1 < 10 ^ 3" using assms by simp_all
  have b: "0 \<le> int i2" "int i2 < 10 ^ 3" using assms by simp_all
  have "(t1 * 10 ^ 3 + int i1) div 10 ^ 3 = t1" using a by (rule block_div_mod)
  moreover have "(t2 * 10 ^ 3 + int i2) div 10 ^ 3 = t2" using b by (rule block_div_mod)
  ultimately have "t1 = t2" using eq by simp
  with eq show ?thesis by simp
qed


section \<open>Claims about the identifiers\<close>

text \<open>
  C3. For every index \<open>i\<close> below the number \<open>n\<close> of cohort definitions the worker's
  identifier is the one number whose decimal digits are the node identifier, then the task
  identifier padded with zeros to four digits, then \<open>i\<close> padded with zeros to three digits,
  held as a float. With node and task identifiers that are not negative this is the float
  nearest to the node identifier shifted left by the two padded widths, plus the task
  identifier shifted by the padded width of \<open>i\<close>, plus \<open>i\<close>; within the documented bounds
  the shifts are seven and three digits and the float is exact. For node 12, task 34 and
  two definitions the identifiers are 120034000.0 and 120034001.0, and the table namespace
  key is \<open>cohort_34_12\<close>.
\<close>

theorem identifiers_concatenate_digits:
  "(0 \<le> node_id m \<and> 0 \<le> task_id m \<longrightarrow>
      cohort_ids m n =
        Inr (map (\<lambda>i. round_to_double
                    (nat (node_id m)
                       * 10 ^ (max 4 (length (digits_of (nat (task_id m))))
                               + max 3 (length (digits_of i)))
                     + nat (task_id m) * 10 ^ max 3 (length (digits_of i)) + i))
               [0..<n]))
   \<and> (0 \<le> node_id m \<and> node_id m \<le> 900719924 \<and> 0 \<le> task_id m \<and> task_id m \<le> 9999
        \<and> n \<le> 1000 \<longrightarrow>
      cohort_ids m n =
        Inr (map (\<lambda>i. Finite (node_id m * 10 ^ 7 + task_id m * 10 ^ 3 + int i)) [0..<n]))
   \<and> cohort_ids \<lparr>node_id = 12, task_id = 34\<rparr> 2 = Inr [Finite 120034000, Finite 120034001]
   \<and> cohort_table \<lparr>node_id = 12, task_id = 34\<rparr> = ''cohort_34_12''"
proof (intro conjI impI)
  assume a: "0 \<le> node_id m \<and> 0 \<le> task_id m"
  show "cohort_ids m n =
        Inr (map (\<lambda>i. round_to_double
                    (nat (node_id m)
                       * 10 ^ (max 4 (length (digits_of (nat (task_id m))))
                               + max 3 (length (digits_of i)))
                     + nat (task_id m) * 10 ^ max 3 (length (digits_of i)) + i))
               [0..<n])"
    unfolding cohort_ids_def
  proof (rule collect_map)
    fix i
    from a have n: "0 \<le> node_id m" and t: "0 \<le> task_id m" by simp_all
    show "cohort_id m i =
        Inr (round_to_double
               (nat (node_id m)
                  * 10 ^ (max 4 (length (digits_of (nat (task_id m))))
                          + max 3 (length (digits_of i)))
                + nat (task_id m) * 10 ^ max 3 (length (digits_of i)) + i))"
      using cohort_id_nonneg [OF n t, of i] dec_value_id_digits [OF t, of "nat (node_id m)" i]
      by simp
  qed
next
  assume a: "0 \<le> node_id m \<and> node_id m \<le> 900719924 \<and> 0 \<le> task_id m \<and> task_id m \<le> 9999
        \<and> n \<le> 1000"
  show "cohort_ids m n =
        Inr (map (\<lambda>i. Finite (node_id m * 10 ^ 7 + task_id m * 10 ^ 3 + int i)) [0..<n])"
    unfolding cohort_ids_def
  proof (rule collect_map)
    fix i
    assume "i \<in> set [0..<n]"
    with a have "i \<le> 999" by simp
    with a show "cohort_id m i = Inr (Finite (node_id m * 10 ^ 7 + task_id m * 10 ^ 3 + int i))"
      by (intro cohort_id_in_range_nonneg) simp_all
  qed
next
  have "cohort_id \<lparr>node_id = 12, task_id = 34\<rparr> 0 = Inr (Finite 120034000)"
    using cohort_id_in_range_nonneg [of "\<lparr>node_id = 12, task_id = 34\<rparr>" 0] by simp
  moreover have "cohort_id \<lparr>node_id = 12, task_id = 34\<rparr> (Suc 0) = Inr (Finite 120034001)"
    using cohort_id_in_range_nonneg [of "\<lparr>node_id = 12, task_id = 34\<rparr>" "Suc 0"] by simp
  moreover have "[0..<2] = [0, Suc 0]" by (simp add: upt_rec)
  ultimately show
    "cohort_ids \<lparr>node_id = 12, task_id = 34\<rparr> 2 = Inr [Finite 120034000, Finite 120034001]"
    by (simp add: cohort_ids_def)
next
  have "digits_of 34 = ''34''" and "digits_of 12 = ''12''"
    by (simp_all add: digits_of.simps digit_char_def)
  then show "cohort_table \<lparr>node_id = 12, task_id = 34\<rparr> = ''cohort_34_12''"
    by (simp add: cohort_table_def str_int_def)
qed

theorem identifiers_concatenate_digits_witness:
  "0 \<le> node_id \<lparr>node_id = 5, task_id = 12345\<rparr> \<and> 0 \<le> task_id \<lparr>node_id = 5, task_id = 12345\<rparr>
   \<and> cohort_ids \<lparr>node_id = 5, task_id = 12345\<rparr> 1 = Inr [Finite 512345000]
   \<and> node_id \<lparr>node_id = 3, task_id = 7\<rparr> \<le> 900719924 \<and> task_id \<lparr>node_id = 3, task_id = 7\<rparr> \<le> 9999
   \<and> (2 :: nat) \<le> 1000
   \<and> cohort_ids \<lparr>node_id = 3, task_id = 7\<rparr> 2 = Inr [Finite 30007000, Finite 30007001]"
proof -
  have d: "digits_of 12345 = ''12345''" "digits_of 0 = ''0''"
    by (simp_all add: digits_of.simps digit_char_def)
  have u: "[0..<2] = [0, Suc 0]" "[0..<1] = [0]" by (simp_all add: upt_rec)
  have "cohort_ids \<lparr>node_id = 5, task_id = 12345\<rparr> 1 = Inr [Finite 512345000]"
    using identifiers_concatenate_digits [of "\<lparr>node_id = 5, task_id = 12345\<rparr>" 1, THEN conjunct1]
    by (simp add: d u round_to_double_small)
  moreover have "cohort_ids \<lparr>node_id = 3, task_id = 7\<rparr> 2 = Inr [Finite 30007000, Finite 30007001]"
    using identifiers_concatenate_digits [of "\<lparr>node_id = 3, task_id = 7\<rparr>" 2,
        THEN conjunct2, THEN conjunct1]
    by (simp add: u)
  ultimately show ?thesis by simp
qed

text \<open>
  C4. Under node 7, with task identifiers from 0 to 9999 and indices from 0 to 999, every
  identifier is a proper float and two identifiers are equal only when both the task
  identifier and the index are.
\<close>

theorem identifiers_injective_node_7:
  assumes "0 \<le> t1" "t1 \<le> 9999" "0 \<le> t2" "t2 \<le> 9999" "i1 \<le> 999" "i2 \<le> 999"
  shows "(\<exists>x. cohort_id \<lparr>node_id = 7, task_id = t1\<rparr> i1 = Inr x)
         \<and> (cohort_id \<lparr>node_id = 7, task_id = t1\<rparr> i1 = cohort_id \<lparr>node_id = 7, task_id = t2\<rparr> i2
              \<longleftrightarrow> t1 = t2 \<and> i1 = i2)"
proof -
  have a: "cohort_id \<lparr>node_id = 7, task_id = t1\<rparr> i1
             = Inr (Finite (7 * 10 ^ 7 + t1 * 10 ^ 3 + int i1))"
    using assms cohort_id_in_range_nonneg [of "\<lparr>node_id = 7, task_id = t1\<rparr>" i1] by simp
  have b: "cohort_id \<lparr>node_id = 7, task_id = t2\<rparr> i2
             = Inr (Finite (7 * 10 ^ 7 + t2 * 10 ^ 3 + int i2))"
    using assms cohort_id_in_range_nonneg [of "\<lparr>node_id = 7, task_id = t2\<rparr>" i2] by simp
  have "t1 * 10 ^ 3 + int i1 = t2 * 10 ^ 3 + int i2 \<longleftrightarrow> t1 = t2 \<and> i1 = i2"
    using pair_inj [OF assms(5) assms(6), of t1 t2] by auto
  with a b show ?thesis by auto
qed

theorem identifiers_injective_node_7_witness:
  "(0 :: int) \<le> 1 \<and> (1 :: int) \<le> 9999 \<and> (0 :: int) \<le> 3 \<and> (3 :: int) \<le> 9999
   \<and> (2 :: nat) \<le> 999 \<and> (4 :: nat) \<le> 999
   \<and> (\<exists>x. cohort_id \<lparr>node_id = 7, task_id = 1\<rparr> 2 = Inr x)
   \<and> cohort_id \<lparr>node_id = 7, task_id = 1\<rparr> 2 \<noteq> cohort_id \<lparr>node_id = 7, task_id = 3\<rparr> 4"
  using identifiers_injective_node_7 [of 1 3 2 4] by simp

text \<open>
  C5. The spec asks that taking a derived identifier apart by the documented digit layout
  gives back the node identifier, the task identifier and the index, for every node
  identifier. The source's comment promises as much: unique cohort ids whose last three
  digits are the index. The code does not keep that promise, because it turns the digits
  into a float: at node 900719926 and task 0 the indices 0 and 1 both give
  9007199260000000.0, whose last three digits are 000.
\<close>

theorem roundtrip_lost_at_large_node:
  "cohort_id \<lparr>node_id = 900719926, task_id = 0\<rparr> 0 = Inr (Finite 9007199260000000)
   \<and> cohort_id \<lparr>node_id = 900719926, task_id = 0\<rparr> 1 = Inr (Finite 9007199260000000)
   \<and> decompose_identifier (Finite 9007199260000000) = Some (900719926, 0, 0)
   \<and> decompose_identifier (Finite 9007199260000000) \<noteq> Some (900719926, 0, 1)"
proof -
  have "dec_value (digits_of 900719926 @ fmt_0d 4 0 @ fmt_0d 3 (int 0)) = 9007199260000000"
    using dec_value_id_digits_in_range [of 0 0 900719926] by simp
  moreover have "bit_length 9007199260000000 = 54"
    by (simp add: bit_length.simps)
  then have "round_to_double 9007199260000000 = Finite 9007199260000000"
    by (simp add: round_to_double_def Let_def)
  ultimately have zero:
    "cohort_id \<lparr>node_id = 900719926, task_id = 0\<rparr> 0 = Inr (Finite 9007199260000000)"
    using cohort_id_nonneg [of "\<lparr>node_id = 900719926, task_id = 0\<rparr>" 0] by simp
  have "dec_value (digits_of 900719926 @ fmt_0d 4 0 @ fmt_0d 3 (int 1)) = 9007199260000001"
    using dec_value_id_digits_in_range [of 0 1 900719926] by simp
  moreover have "bit_length 9007199260000001 = 54"
    by (simp add: bit_length.simps)
  then have "round_to_double 9007199260000001 = Finite 9007199260000000"
    by (simp add: round_to_double_def Let_def)
  ultimately have one:
    "cohort_id \<lparr>node_id = 900719926, task_id = 0\<rparr> 1 = Inr (Finite 9007199260000000)"
    using cohort_id_nonneg [of "\<lparr>node_id = 900719926, task_id = 0\<rparr>" 1] by simp
  have "decompose_identifier (Finite 9007199260000000) = Some (900719926, 0, 0)"
    by (simp add: decompose_identifier_def)
  with zero one show ?thesis by simp
qed

text \<open>
  Where the digits fit a float the layout does hold: for a node identifier of absolute value
  at most 900719924 every identifier is below \<open>2 ^ 53\<close> and can be taken apart again.
\<close>

lemma roundtrip_below_float_precision:
  assumes "\<bar>node\<bar> \<le> 900719924" "0 \<le> task" "task \<le> 9999" "i \<le> 999"
  shows "\<exists>x. cohort_id \<lparr>node_id = node, task_id = task\<rparr> i = Inr x
              \<and> decompose_identifier x = Some (node, task, int i)"
proof (cases "0 \<le> node")
  case True
  let ?v = "node * 10 ^ 7 + task * 10 ^ 3 + int i"
  have c: "cohort_id \<lparr>node_id = node, task_id = task\<rparr> i = Inr (Finite ?v)"
    using assms True cohort_id_in_range_nonneg [of "\<lparr>node_id = node, task_id = task\<rparr>" i]
    by simp
  have i: "0 \<le> int i" "int i \<le> 999" using assms by simp_all
  have nn: "0 \<le> ?v" using assms True by simp
  have d: "?v div 10 ^ 7 = node" "?v div 10 ^ 3 mod 10 ^ 4 = task" "?v mod 10 ^ 3 = int i"
    using digits_split [OF assms(2) assms(3) i, of node] by simp_all
  have s: "sgn ?v * node = node"
  proof (cases "node = 0")
    case True
    then show ?thesis by simp
  next
    case False
    with \<open>0 \<le> node\<close> assms have "0 < ?v" by simp
    then show ?thesis by simp
  qed
  have "\<bar>?v\<bar> = ?v" using nn by simp
  then have "decompose_identifier (Finite ?v) = Some (node, task, int i)"
    unfolding decompose_identifier_def using d s by simp
  with c show ?thesis by blast
next
  case False
  let ?v = "- node * 10 ^ 7 + task * 10 ^ 3 + int i"
  have c: "cohort_id \<lparr>node_id = node, task_id = task\<rparr> i = Inr (Finite (- ?v))"
    using assms False cohort_id_in_range_neg [of "\<lparr>node_id = node, task_id = task\<rparr>" i]
    by simp
  have i: "0 \<le> int i" "int i \<le> 999" using assms by simp_all
  have pos: "0 < ?v" using assms False by simp
  have d: "?v div 10 ^ 7 = - node" "?v div 10 ^ 3 mod 10 ^ 4 = task" "?v mod 10 ^ 3 = int i"
    using digits_split [OF assms(2) assms(3) i, of "- node"] by simp_all
  have "sgn (- ?v) = - 1" using pos by simp
  moreover have "\<bar>- ?v\<bar> = ?v" using pos by simp
  ultimately have "decompose_identifier (Finite (- ?v)) = Some (node, task, int i)"
    unfolding decompose_identifier_def using d by simp
  with c show ?thesis by blast
qed

section \<open>The orchestrator\<close>

lemma task_creations_append: "task_creations (xs @ ys) = task_creations xs @ task_creations ys"
  by (induction xs rule: task_creations.induct) simp_all

lemma waits_append: "waits (xs @ ys) = waits xs @ waits ys"
  by (induction xs rule: waits.induct) simp_all

lemma central_rejects:
  assumes "organization_list client h = Inr orgs"
    and "(case given of None \<Rightarrow> SelStr ''ALL'' | Some s \<Rightarrow> s) \<noteq> SelStr ''ALL''"
    and "\<not> py_set (case given of None \<Rightarrow> SelStr ''ALL'' | Some s \<Rightarrow> s)
            \<subseteq> set (map (\<lambda>org. PInt (org_id org)) orgs)"
  shows "central client cd cn tcs ds given h =
           (Inr (MessageDict
              [(''msg'', ''You specified an organization that is not part of the collaboration'')]),
            h @ [OrganizationList])"
  using assms by (simp add: central_def ext_call_def Let_def)

lemma central_dispatches:
  assumes "organization_list client h = Inr orgs"
    and "sel = (case given of None \<Rightarrow> SelStr ''ALL'' | Some s \<Rightarrow> s)"
    and "sel = SelStr ''ALL'' \<or> py_set sel \<subseteq> set (map (\<lambda>org. PInt (org_id org)) orgs)"
    and "target = (if sel = SelStr ''ALL'' then SelList (map (\<lambda>org. PInt (org_id org)) orgs) else sel)"
    and "input = \<lparr>method_name = ''cohort_diagnostics'',
                   kwargs = [(''cohort_definitions'', Definitions cd),
                             (''cohort_names'', Names cn),
                             (''temporal_covariate_settings'', Settings tcs),
                             (''diagnostics_settings'', Settings ds)]\<rparr>"
  shows "central client cd cn tcs ds given h =
           (case task_create client (h @ [OrganizationList]) input target of
              Inl e \<Rightarrow> (Inl e, h @ [OrganizationList, TaskCreate input target])
            | Inr task \<Rightarrow>
                (case wait_for_results client (h @ [OrganizationList, TaskCreate input target])
                        (created_id task) of
                   Inl e \<Rightarrow>
                     (Inl e, h @ [OrganizationList, TaskCreate input target,
                                  WaitForResults (created_id task)])
                 | Inr all_results \<Rightarrow>
                     (Inr (AllResults all_results),
                      h @ [OrganizationList, TaskCreate input target,
                           WaitForResults (created_id task)])))"
  using assms by (auto simp: central_def ext_call_def Let_def split: sum.splits)

lemma central_dispatches_trace:
  assumes "organization_list client h = Inr orgs"
    and "sel = (case given of None \<Rightarrow> SelStr ''ALL'' | Some s \<Rightarrow> s)"
    and "sel = SelStr ''ALL'' \<or> py_set sel \<subseteq> set (map (\<lambda>org. PInt (org_id org)) orgs)"
    and "target = (if sel = SelStr ''ALL'' then SelList (map (\<lambda>org. PInt (org_id org)) orgs) else sel)"
    and "input = \<lparr>method_name = ''cohort_diagnostics'',
                   kwargs = [(''cohort_definitions'', Definitions cd),
                             (''cohort_names'', Names cn),
                             (''temporal_covariate_settings'', Settings tcs),
                             (''diagnostics_settings'', Settings ds)]\<rparr>"
  shows "\<exists>rest. snd (central client cd cn tcs ds given h)
                  = h @ [OrganizationList, TaskCreate input target] @ rest
               \<and> task_creations rest = []"
proof -
  note c = central_dispatches [OF assms]
  show ?thesis
  proof (cases "task_create client (h @ [OrganizationList]) input target")
    case (Inl e)
    with c show ?thesis by simp
  next
    case (Inr task)
    with c show ?thesis by (simp split: sum.splits)
  qed
qed

text \<open>
  C1. When the server lists its organizations and the selector is the sentinel or a subset of
  their ids, a run of \<open>central\<close> makes exactly one task-creation call. Its method is
  \<open>cohort_diagnostics\<close>, its kwargs are the four inputs under their own names, unchanged, and
  its target is the full list of ids for the sentinel and the selector itself otherwise.
\<close>

theorem central_creates_one_task:
  assumes "organization_list client h = Inr orgs"
    and "sel = SelStr ''ALL'' \<or> py_set sel \<subseteq> set (map (\<lambda>org. PInt (org_id org)) orgs)"
  shows "task_creations (drop (length h) (snd (central client cd cn tcs ds (Some sel) h))) =
           [(\<lparr>method_name = ''cohort_diagnostics'',
              kwargs = [(''cohort_definitions'', Definitions cd),
                        (''cohort_names'', Names cn),
                        (''temporal_covariate_settings'', Settings tcs),
                        (''diagnostics_settings'', Settings ds)]\<rparr>,
             if sel = SelStr ''ALL'' then SelList (map (\<lambda>org. PInt (org_id org)) orgs) else sel)]"
proof -
  have "sel = (case Some sel of None \<Rightarrow> SelStr ''ALL'' | Some s \<Rightarrow> s)" by simp
  from central_dispatches_trace [OF assms(1) this assms(2) refl refl, of cd cn tcs ds]
  obtain rest where
    "snd (central client cd cn tcs ds (Some sel) h) =
       h @ [OrganizationList,
            TaskCreate \<lparr>method_name = ''cohort_diagnostics'',
                        kwargs = [(''cohort_definitions'', Definitions cd),
                                  (''cohort_names'', Names cn),
                                  (''temporal_covariate_settings'', Settings tcs),
                                  (''diagnostics_settings'', Settings ds)]\<rparr>
              (if sel = SelStr ''ALL'' then SelList (map (\<lambda>org. PInt (org_id org)) orgs)
               else sel)] @ rest"
    and "task_creations rest = []"
    by blast
  then show ?thesis by (simp add: task_creations_append)
qed

theorem central_creates_one_task_witness:
  "organization_list example_client [] = Inr [\<lparr>org_id = 1\<rparr>, \<lparr>org_id = 2\<rparr>, \<lparr>org_id = 3\<rparr>]
   \<and> py_set (SelList [PInt 3, PInt 1])
        \<subseteq> set (map (\<lambda>org. PInt (org_id org)) [\<lparr>org_id = 1\<rparr>, \<lparr>org_id = 2\<rparr>, \<lparr>org_id = 3\<rparr>])
   \<and> task_creations (drop (length [])
        (snd (central example_client [5, 6] [''A'', ''B''] [(''t'', 1)] [(''d'', 2)]
                (Some (SelList [PInt 3, PInt 1])) []))) =
        [(\<lparr>method_name = ''cohort_diagnostics'',
           kwargs = [(''cohort_definitions'', Definitions [5, 6]),
                     (''cohort_names'', Names [''A'', ''B'']),
                     (''temporal_covariate_settings'', Settings [(''t'', 1)]),
                     (''diagnostics_settings'', Settings [(''d'', 2)])]\<rparr>,
          SelList [PInt 3, PInt 1])]"
  using central_creates_one_task [of example_client "[]"
      "[\<lparr>org_id = 1\<rparr>, \<lparr>org_id = 2\<rparr>, \<lparr>org_id = 3\<rparr>]" "SelList [PInt 3, PInt 1]"
      "[5, 6]" "[''A'', ''B'']" "[(''t'', 1)]" "[(''d'', 2)]"]
  by (simp add: example_client_def)

text \<open>
  C2. When the server lists its organizations and the selector is neither the sentinel nor a
  subset of their ids, \<open>central\<close> returns the dict with the message under \<open>msg\<close>, having
  called the server only for the list: no task is created and nothing is waited for.
\<close>

theorem central_rejects_unknown_organization:
  assumes "organization_list client h = Inr orgs"
    and "sel \<noteq> SelStr ''ALL''"
    and "\<not> py_set sel \<subseteq> set (map (\<lambda>org. PInt (org_id org)) orgs)"
  shows "central client cd cn tcs ds (Some sel) h =
           (Inr (MessageDict
              [(''msg'', ''You specified an organization that is not part of the collaboration'')]),
            h @ [OrganizationList])
         \<and> task_creations (drop (length h) (snd (central client cd cn tcs ds (Some sel) h))) = []
         \<and> waits (drop (length h) (snd (central client cd cn tcs ds (Some sel) h))) = []"
proof -
  have "central client cd cn tcs ds (Some sel) h =
           (Inr (MessageDict
              [(''msg'', ''You specified an organization that is not part of the collaboration'')]),
            h @ [OrganizationList])"
    using assms by (intro central_rejects) simp_all
  then show ?thesis by simp
qed

theorem central_rejects_unknown_organization_witness:
  "organization_list example_client [] = Inr [\<lparr>org_id = 1\<rparr>, \<lparr>org_id = 2\<rparr>, \<lparr>org_id = 3\<rparr>]
   \<and> SelList [PInt 99] \<noteq> SelStr ''ALL''
   \<and> \<not> py_set (SelList [PInt 99])
          \<subseteq> set (map (\<lambda>org. PInt (org_id org)) [\<lparr>org_id = 1\<rparr>, \<lparr>org_id = 2\<rparr>, \<lparr>org_id = 3\<rparr>])
   \<and> central example_client [5, 6] [''A'', ''B''] [(''t'', 1)] [(''d'', 2)]
        (Some (SelList [PInt 99])) [] =
        (Inr (MessageDict
           [(''msg'', ''You specified an organization that is not part of the collaboration'')]),
         [OrganizationList])"
  using central_rejects_unknown_organization [of example_client "[]"
      "[\<lparr>org_id = 1\<rparr>, \<lparr>org_id = 2\<rparr>, \<lparr>org_id = 3\<rparr>]" "SelList [PInt 99]"
      "[5, 6]" "[''A'', ''B'']" "[(''t'', 1)]" "[(''d'', 2)]"]
  by (simp add: example_client_def)

text \<open>
  C10. The sentinel is the string \<open>ALL\<close> and nothing else. A call that leaves the selector
  out, or passes \<open>ALL\<close>, creates its task for all the ids listed. Every other selector goes
  through the subset check: it becomes the target when it passes and gives the message dict,
  with no task created, when it does not. The string \<open>all\<close> never passes, whatever ids the
  server lists, since they are ints.
\<close>

theorem sentinel_is_exactly_ALL:
  assumes "organization_list client h = Inr orgs"
  shows "(given = None \<or> given = Some (SelStr ''ALL'') \<longrightarrow>
            task_creations (drop (length h) (snd (central client cd cn tcs ds given h))) =
              [(\<lparr>method_name = ''cohort_diagnostics'',
                 kwargs = [(''cohort_definitions'', Definitions cd),
                           (''cohort_names'', Names cn),
                           (''temporal_covariate_settings'', Settings tcs),
                           (''diagnostics_settings'', Settings ds)]\<rparr>,
                SelList (map (\<lambda>org. PInt (org_id org)) orgs))])
       \<and> (sel \<noteq> SelStr ''ALL'' \<longrightarrow>
            (if py_set sel \<subseteq> set (map (\<lambda>org. PInt (org_id org)) orgs)
             then task_creations (drop (length h)
                      (snd (central client cd cn tcs ds (Some sel) h))) =
                    [(\<lparr>method_name = ''cohort_diagnostics'',
                       kwargs = [(''cohort_definitions'', Definitions cd),
                                 (''cohort_names'', Names cn),
                                 (''temporal_covariate_settings'', Settings tcs),
                                 (''diagnostics_settings'', Settings ds)]\<rparr>,
                      sel)]
             else central client cd cn tcs ds (Some sel) h =
                    (Inr (MessageDict
                       [(''msg'',
                         ''You specified an organization that is not part of the collaboration'')]),
                     h @ [OrganizationList])))
       \<and> central client cd cn tcs ds (Some (SelStr ''all'')) h =
            (Inr (MessageDict
               [(''msg'', ''You specified an organization that is not part of the collaboration'')]),
             h @ [OrganizationList])"
proof (intro conjI impI)
  assume g: "given = None \<or> given = Some (SelStr ''ALL'')"
  then have e: "SelStr ''ALL'' = (case given of None \<Rightarrow> SelStr ''ALL'' | Some s \<Rightarrow> s)"
    by auto
  have "SelStr ''ALL'' = SelStr ''ALL''
          \<or> py_set (SelStr ''ALL'') \<subseteq> set (map (\<lambda>org. PInt (org_id org)) orgs)"
    by simp
  from central_dispatches_trace [OF assms e this refl refl, of cd cn tcs ds]
  show "task_creations (drop (length h) (snd (central client cd cn tcs ds given h))) =
              [(\<lparr>method_name = ''cohort_diagnostics'',
                 kwargs = [(''cohort_definitions'', Definitions cd),
                           (''cohort_names'', Names cn),
                           (''temporal_covariate_settings'', Settings tcs),
                           (''diagnostics_settings'', Settings ds)]\<rparr>,
                SelList (map (\<lambda>org. PInt (org_id org)) orgs))]"
    by (auto simp: task_creations_append)
next
  assume n: "sel \<noteq> SelStr ''ALL''"
  show "if py_set sel \<subseteq> set (map (\<lambda>org. PInt (org_id org)) orgs)
        then task_creations (drop (length h)
                 (snd (central client cd cn tcs ds (Some sel) h))) =
               [(\<lparr>method_name = ''cohort_diagnostics'',
                  kwargs = [(''cohort_definitions'', Definitions cd),
                            (''cohort_names'', Names cn),
                            (''temporal_covariate_settings'', Settings tcs),
                            (''diagnostics_settings'', Settings ds)]\<rparr>,
                 sel)]
        else central client cd cn tcs ds (Some sel) h =
               (Inr (MessageDict
                  [(''msg'',
                    ''You specified an organization that is not part of the collaboration'')]),
                h @ [OrganizationList])"
  proof (cases "py_set sel \<subseteq> set (map (\<lambda>org. PInt (org_id org)) orgs)")
    case True
    have e: "sel = (case Some sel of None \<Rightarrow> SelStr ''ALL'' | Some s \<Rightarrow> s)" by simp
    from True have "sel = SelStr ''ALL''
          \<or> py_set sel \<subseteq> set (map (\<lambda>org. PInt (org_id org)) orgs)"
      by simp
    from central_dispatches_trace [OF assms e this refl refl, of cd cn tcs ds] n True
    show ?thesis by (auto simp: task_creations_append)
  next
    case False
    with n assms show ?thesis by (simp add: central_rejects)
  qed
next
  have "PStr ''a'' \<in> py_set (SelStr ''all'')" by simp
  moreover have "PStr ''a'' \<notin> set (map (\<lambda>org. PInt (org_id org)) orgs)" by auto
  ultimately have "\<not> py_set (SelStr ''all'') \<subseteq> set (map (\<lambda>org. PInt (org_id org)) orgs)"
    by blast
  with assms show "central client cd cn tcs ds (Some (SelStr ''all'')) h =
            (Inr (MessageDict
               [(''msg'', ''You specified an organization that is not part of the collaboration'')]),
             h @ [OrganizationList])"
    by (simp add: central_rejects)
qed

theorem sentinel_is_exactly_ALL_witness:
  "organization_list example_client [] = Inr [\<lparr>org_id = 1\<rparr>, \<lparr>org_id = 2\<rparr>, \<lparr>org_id = 3\<rparr>]
   \<and> task_creations (drop (length [])
        (snd (central example_client [5, 6] [''A'', ''B''] [(''t'', 1)] [(''d'', 2)] None []))) =
        [(\<lparr>method_name = ''cohort_diagnostics'',
           kwargs = [(''cohort_definitions'', Definitions [5, 6]),
                     (''cohort_names'', Names [''A'', ''B'']),
                     (''temporal_covariate_settings'', Settings [(''t'', 1)]),
                     (''diagnostics_settings'', Settings [(''d'', 2)])]\<rparr>,
          SelList [PInt 1, PInt 2, PInt 3])]
   \<and> SelList [PInt 2] \<noteq> SelStr ''ALL''
   \<and> task_creations (drop (length [])
        (snd (central example_client [5, 6] [''A'', ''B''] [(''t'', 1)] [(''d'', 2)]
                (Some (SelList [PInt 2])) []))) =
        [(\<lparr>method_name = ''cohort_diagnostics'',
           kwargs = [(''cohort_definitions'', Definitions [5, 6]),
                     (''cohort_names'', Names [''A'', ''B'']),
                     (''temporal_covariate_settings'', Settings [(''t'', 1)]),
                     (''diagnostics_settings'', Settings [(''d'', 2)])]\<rparr>,
          SelList [PInt 2])]
   \<and> central example_client [5, 6] [''A'', ''B''] [(''t'', 1)] [(''d'', 2)]
        (Some (SelStr ''all'')) [] =
        (Inr (MessageDict
           [(''msg'', ''You specified an organization that is not part of the collaboration'')]),
         [OrganizationList])"
  using sentinel_is_exactly_ALL [of example_client "[]"
      "[\<lparr>org_id = 1\<rparr>, \<lparr>org_id = 2\<rparr>, \<lparr>org_id = 3\<rparr>]" None
      "[5, 6]" "[''A'', ''B'']" "[(''t'', 1)]" "[(''d'', 2)]" "SelList [PInt 2]"]
  by (simp add: example_client_def)

section \<open>The worker\<close>

lemma collect_Inr:
  "collect f xs = Inr ys \<Longrightarrow> length ys = length xs \<and> (\<forall>k<length xs. f (xs ! k) = Inr (ys ! k))"
proof (induction xs arbitrary: ys)
  case Nil
  then show ?case by simp
next
  case (Cons x xs)
  from Cons.prems obtain y ys' where y: "f x = Inr y" and ys': "collect f xs = Inr ys'"
    and ys: "ys = y # ys'"
    by (auto split: sum.splits)
  from Cons.IH [OF ys'] have "length ys' = length xs"
    and "\<forall>k<length xs. f (xs ! k) = Inr (ys' ! k)" by simp_all
  with y ys show ?case by (auto simp: nth_Cons split: nat.splits)
qed

lemma cohort_ids_Inr:
  assumes "cohort_ids m n = Inr ids"
  shows "length ids = n" and "\<And>k. k < n \<Longrightarrow> cohort_id m k = Inr (ids ! k)"
  using collect_Inr [of "cohort_id m" "[0..<n]" ids] assms
  by (simp_all add: cohort_ids_def)

lemma csv_reads_append: "csv_reads (xs @ ys) = csv_reads xs @ csv_reads ys"
  by (induction xs rule: csv_reads.induct) simp_all

lemma circe_call_no_read: "list_all circe_call cs \<Longrightarrow> csv_reads cs = []"
  by (induction cs rule: csv_reads.induct) simp_all

lemma circe_call_no_database: "circe_call c \<Longrightarrow> \<not> database_call c"
  by (cases c) simp_all

lemma create_cohort_query_calls:
  "\<exists>cs. snd (create_cohort_query W d h) = h @ cs \<and> list_all circe_call cs"
  by (auto simp: create_cohort_query_def ext_call_def split: sum.splits list.splits)

lemma create_queries_calls:
  "\<exists>cs. snd (create_queries W ds h) = h @ cs \<and> list_all circe_call cs"
proof (induction ds arbitrary: h)
  case Nil
  show ?case by simp
next
  case (Cons d ds)
  obtain r h1 where q: "create_cohort_query W d h = (r, h1)" by (cases "create_cohort_query W d h")
  with create_cohort_query_calls [of W d h] obtain cs1 where
    h1: "h1 = h @ cs1" and c1: "list_all circe_call cs1" by auto
  show ?case
  proof (cases r)
    case (Inl e)
    with q h1 c1 show ?thesis by simp
  next
    case (Inr s)
    obtain r2 h2 where q2: "create_queries W ds h1 = (r2, h2)" by (cases "create_queries W ds h1")
    with Cons.IH [of h1] obtain cs2 where
      h2: "h2 = h1 @ cs2" and c2: "list_all circe_call cs2" by auto
    have "snd (create_queries W (d # ds) h) = h2"
      using q Inr q2 by (simp split: sum.splits)
    with h1 h2 c1 c2 show ?thesis by simp
  qed
qed

lemma create_queries_Inr:
  "create_queries W ds h = (Inr qs, h') \<Longrightarrow>
     length qs = length ds
     \<and> (\<forall>k<length ds. \<exists>hk hk'. create_cohort_query W (ds ! k) hk = (Inr (qs ! k), hk'))"
proof (induction ds arbitrary: h qs)
  case Nil
  then show ?case by simp
next
  case (Cons d ds)
  from Cons.prems obtain q h1 qs' where q: "create_cohort_query W d h = (Inr q, h1)"
    and r: "create_queries W ds h1 = (Inr qs', h')" and qs: "qs = q # qs'"
    by (auto split: prod.splits sum.splits)
  from Cons.IH [OF r] have l: "length qs' = length ds"
    and a: "\<forall>k<length ds. \<exists>hk hk'. create_cohort_query W (ds ! k) hk = (Inr (qs' ! k), hk')"
    by simp_all
  show ?case
  proof (intro conjI allI impI)
    show "length qs = length (d # ds)" using l qs by simp
  next
    fix k
    assume "k < length (d # ds)"
    show "\<exists>hk hk'. create_cohort_query W ((d # ds) ! k) hk = (Inr (qs ! k), hk')"
    proof (cases k)
      case 0
      with q qs show ?thesis by auto
    next
      case (Suc j)
      with \<open>k < length (d # ds)\<close> have "j < length ds" by simp
      with a Suc qs show ?thesis by simp
    qed
  qed
qed

lemma cohort_definition_set_calls:
  "\<exists>cs. snd (cohort_definition_set W m ds names h) = h @ cs \<and> list_all circe_call cs"
proof (cases "cohort_ids m (length ds)")
  case (Inl e)
  then show ?thesis by (simp add: cohort_definition_set_def)
next
  case (Inr ids)
  obtain r h1 where q: "create_queries W ds h = (r, h1)" by (cases "create_queries W ds h")
  with create_queries_calls [of W ds h] obtain cs where
    "h1 = h @ cs" and "list_all circe_call cs" by auto
  moreover have "snd (cohort_definition_set W m ds names h) = h1"
    using Inr q by (simp add: cohort_definition_set_def Let_def split: sum.splits)
  ultimately show ?thesis by simp
qed

lemma cohort_definition_set_mismatch:
  assumes "length names \<noteq> length ds"
  shows "\<exists>e. fst (cohort_definition_set W m ds names h) = Inl e"
proof (cases "cohort_ids m (length ds)")
  case (Inl e)
  then show ?thesis by (simp add: cohort_definition_set_def)
next
  case (Inr ids)
  then have l: "length ids = length ds" by (rule cohort_ids_Inr)
  obtain r h1 where q: "create_queries W ds h = (r, h1)" by (cases "create_queries W ds h")
  show ?thesis
  proof (cases r)
    case (Inl e)
    with Inr q show ?thesis by (simp add: cohort_definition_set_def)
  next
    case (Inr sqls)
    with \<open>cohort_ids m (length ds) = Inr ids\<close> q l assms show ?thesis
      by (simp add: cohort_definition_set_def DataFrame_def Let_def)
  qed
qed


lemma example_ids:
  "cohort_ids \<lparr>node_id = 12, task_id = 34\<rparr> (length [5 :: nat, 6])
     = Inr [Finite 120034000, Finite 120034001]"
proof -
  have "cohort_id \<lparr>node_id = 12, task_id = 34\<rparr> 0 = Inr (Finite 120034000)"
    using cohort_id_in_range_nonneg [of "\<lparr>node_id = 12, task_id = 34\<rparr>" 0] by simp
  moreover have "cohort_id \<lparr>node_id = 12, task_id = 34\<rparr> (Suc 0) = Inr (Finite 120034001)"
    using cohort_id_in_range_nonneg [of "\<lparr>node_id = 12, task_id = 34\<rparr>" "Suc 0"] by simp
  moreover have "[0..<2] = [0, Suc 0]" by (simp add: upt_rec)
  ultimately show ?thesis by (simp add: cohort_ids_def)
qed

lemma example_query:
  "create_cohort_query example_world d h =
     (Inr (replicate d CHR ''q''),
      h @ [CohortExpressionFromJson d, CreateGenerateOptions True, BuildCohortQuery d 1])"
  by (simp add: create_cohort_query_def ext_call_def example_world_def)

lemma example_queries:
  "create_queries example_world [5, 6] [] =
     (Inr [''qqqqq'', ''qqqqqq''],
      [CohortExpressionFromJson 5, CreateGenerateOptions True, BuildCohortQuery 5 1,
       CohortExpressionFromJson 6, CreateGenerateOptions True, BuildCohortQuery 6 1])"
  by (simp add: example_query eval_nat_numeral)

text \<open>
  C6. With as many names as cohort definitions, identifiers that are derived and queries that
  are all generated, the worker builds a table of exactly \<open>n\<close> rows for its \<open>n\<close> definitions.
  Row \<open>k\<close> holds the \<open>k\<close>-th derived identifier, the \<open>k\<close>-th name, the \<open>k\<close>-th definition, a
  query that \<open>_create_cohort_query\<close> returned for that definition, \<open>generateStats\<close> true and no
  logic description.
\<close>

theorem work_items_built:
  assumes "length cohort_names = length cohort_definitions"
    and "cohort_ids meta_run (length cohort_definitions) = Inr ids"
    and "create_queries W cohort_definitions h = (Inr sqls, h')"
  shows "\<exists>rows. cohort_definition_set W meta_run cohort_definitions cohort_names h = (Inr rows, h')
           \<and> length rows = length cohort_definitions
           \<and> (\<forall>k<length cohort_definitions.
                  cohort_id meta_run k = Inr (cohortId (rows ! k))
                \<and> cohortName (rows ! k) = cohort_names ! k
                \<and> json (rows ! k) = cohort_definitions ! k
                \<and> (\<exists>hk hk'. create_cohort_query W (cohort_definitions ! k) hk
                               = (Inr (sql (rows ! k)), hk'))
                \<and> generateStats (rows ! k) = True
                \<and> logicDescription (rows ! k) = None)"
proof -
  let ?n = "length cohort_definitions"
  let ?rows = "map (\<lambda>k. \<lparr>cohortId = ids ! k, cohortName = cohort_names ! k,
                          json = cohort_definitions ! k, sql = sqls ! k,
                          logicDescription = replicate ?n None ! k,
                          generateStats = replicate ?n True ! k\<rparr>) [0..<?n]"
  have li: "length ids = ?n" using assms(2) by (rule cohort_ids_Inr)
  have id: "\<And>k. k < ?n \<Longrightarrow> cohort_id meta_run k = Inr (ids ! k)"
    using assms(2) by (rule cohort_ids_Inr)
  from create_queries_Inr [OF assms(3)] have ls: "length sqls = ?n"
    and q: "\<And>k. k < ?n \<Longrightarrow>
              \<exists>hk hk'. create_cohort_query W (cohort_definitions ! k) hk = (Inr (sqls ! k), hk')"
    by simp_all
  have "DataFrame ids cohort_names cohort_definitions sqls (replicate ?n None)
          (replicate ?n True) = Inr ?rows"
    using li ls assms(1) by (simp add: DataFrame_def)
  then have "cohort_definition_set W meta_run cohort_definitions cohort_names h = (Inr ?rows, h')"
    using assms(2) assms(3) by (simp add: cohort_definition_set_def Let_def)
  moreover have "length ?rows = ?n" by simp
  moreover have "\<forall>k<?n. cohort_id meta_run k = Inr (cohortId (?rows ! k))
                \<and> cohortName (?rows ! k) = cohort_names ! k
                \<and> json (?rows ! k) = cohort_definitions ! k
                \<and> (\<exists>hk hk'. create_cohort_query W (cohort_definitions ! k) hk
                               = (Inr (sql (?rows ! k)), hk'))
                \<and> generateStats (?rows ! k) = True
                \<and> logicDescription (?rows ! k) = None"
    using id q by simp
  ultimately show ?thesis by blast
qed

theorem work_items_built_witness:
  "length [''A'', ''B''] = length [5 :: nat, 6]
   \<and> cohort_ids \<lparr>node_id = 12, task_id = 34\<rparr> (length [5 :: nat, 6])
       = Inr [Finite 120034000, Finite 120034001]
   \<and> create_queries example_world [5, 6] [] =
       (Inr [''qqqqq'', ''qqqqqq''],
        [CohortExpressionFromJson 5, CreateGenerateOptions True, BuildCohortQuery 5 1,
         CohortExpressionFromJson 6, CreateGenerateOptions True, BuildCohortQuery 6 1])
   \<and> (\<exists>rows. cohort_definition_set example_world \<lparr>node_id = 12, task_id = 34\<rparr> [5, 6]
                [''A'', ''B''] [] =
              (Inr rows,
               [CohortExpressionFromJson 5, CreateGenerateOptions True, BuildCohortQuery 5 1,
                CohortExpressionFromJson 6, CreateGenerateOptions True, BuildCohortQuery 6 1])
        \<and> length rows = 2
        \<and> cohortName (rows ! 1) = ''B'' \<and> json (rows ! 1) = 6
        \<and> cohort_id \<lparr>node_id = 12, task_id = 34\<rparr> 1 = Inr (cohortId (rows ! 1))
        \<and> generateStats (rows ! 1) = True \<and> logicDescription (rows ! 1) = None)"
proof -
  have l: "length [''A'', ''B''] = length [5 :: nat, 6]" by simp
  from work_items_built [OF l example_ids example_queries]
  obtain rows where
    "cohort_definition_set example_world \<lparr>node_id = 12, task_id = 34\<rparr> [5, 6] [''A'', ''B''] [] =
       (Inr rows,
        [CohortExpressionFromJson 5, CreateGenerateOptions True, BuildCohortQuery 5 1,
         CohortExpressionFromJson 6, CreateGenerateOptions True, BuildCohortQuery 6 1])"
    and "length rows = length [5 :: nat, 6]"
    and "\<forall>k<length [5 :: nat, 6].
            cohort_id \<lparr>node_id = 12, task_id = 34\<rparr> k = Inr (cohortId (rows ! k))
          \<and> cohortName (rows ! k) = [''A'', ''B''] ! k
          \<and> json (rows ! k) = [5, 6] ! k
          \<and> (\<exists>hk hk'. create_cohort_query example_world ([5, 6] ! k) hk
                         = (Inr (sql (rows ! k)), hk'))
          \<and> generateStats (rows ! k) = True
          \<and> logicDescription (rows ! k) = None"
    by blast
  then have "cohort_definition_set example_world \<lparr>node_id = 12, task_id = 34\<rparr> [5, 6]
                [''A'', ''B''] [] =
              (Inr rows,
               [CohortExpressionFromJson 5, CreateGenerateOptions True, BuildCohortQuery 5 1,
                CohortExpressionFromJson 6, CreateGenerateOptions True, BuildCohortQuery 6 1])
        \<and> length rows = 2
        \<and> cohortName (rows ! 1) = ''B'' \<and> json (rows ! 1) = 6
        \<and> cohort_id \<lparr>node_id = 12, task_id = 34\<rparr> 1 = Inr (cohortId (rows ! 1))
        \<and> generateStats (rows ! 1) = True \<and> logicDescription (rows ! 1) = None"
    by (auto dest!: spec [of _ 1])
  then show ?thesis using l example_ids example_queries by blast
qed



text \<open>
  C9. With a number of names that differs from the number of cohort definitions the worker
  fails, and the failure is that of the statements that build the work-item table: the only
  outside calls made are those of the query builder, none of them a table creation, a cohort
  generation or a diagnostics run on the connection. When the identifiers are derived and
  every query is generated, the failure is the ValueError of \<open>pd.DataFrame\<close>.
\<close>

theorem name_count_mismatch_fails_before_database:
  assumes "length cohort_names \<noteq> length cohort_definitions"
  shows "\<exists>e cs.
           cohort_diagnostics W connection meta_omop meta_run cohort_definitions cohort_names
             temporal_covariate_settings diagnostics_settings h = (Inl e, h @ cs)
         \<and> cohort_definition_set W meta_run cohort_definitions cohort_names h = (Inl e, h @ cs)
         \<and> (\<forall>c \<in> set cs. circe_call c \<and> \<not> database_call c)
         \<and> (\<forall>ids sqls h1.
               cohort_ids meta_run (length cohort_definitions) = Inr ids
               \<and> create_queries W cohort_definitions h = (Inr sqls, h1)
               \<longrightarrow> e = ValueError \<and> h @ cs = h1)"
proof -
  obtain r h1 where s: "cohort_definition_set W meta_run cohort_definitions cohort_names h = (r, h1)"
    by (cases "cohort_definition_set W meta_run cohort_definitions cohort_names h")
  with cohort_definition_set_mismatch [OF assms, of W meta_run h] obtain e where r: "r = Inl e"
    by auto
  from s cohort_definition_set_calls [of W meta_run cohort_definitions cohort_names h]
  obtain cs where h1: "h1 = h @ cs" and c: "list_all circe_call cs" by auto
  have "cohort_diagnostics W connection meta_omop meta_run cohort_definitions cohort_names
             temporal_covariate_settings diagnostics_settings h = (Inl e, h @ cs)"
    using s r h1 by (simp add: cohort_diagnostics_def)
  moreover have "\<forall>c \<in> set cs. circe_call c \<and> \<not> database_call c"
    using c circe_call_no_database by (auto simp: list_all_iff)
  moreover have "\<forall>ids sqls h2.
               cohort_ids meta_run (length cohort_definitions) = Inr ids
               \<and> create_queries W cohort_definitions h = (Inr sqls, h2)
               \<longrightarrow> e = ValueError \<and> h @ cs = h2"
  proof (intro allI impI)
    fix ids sqls h2
    assume a: "cohort_ids meta_run (length cohort_definitions) = Inr ids
               \<and> create_queries W cohort_definitions h = (Inr sqls, h2)"
    then have "length ids = length cohort_definitions" using cohort_ids_Inr(1) by blast
    with a assms have "cohort_definition_set W meta_run cohort_definitions cohort_names h
                 = (Inl ValueError, h2)"
      by (simp add: cohort_definition_set_def DataFrame_def Let_def)
    with s r h1 show "e = ValueError \<and> h @ cs = h2" by simp
  qed
  ultimately show ?thesis using s r h1 by blast
qed

theorem name_count_mismatch_fails_before_database_witness:
  "length [''A''] \<noteq> length [5 :: nat, 6]
   \<and> cohort_diagnostics example_world 0 \<lparr>cdm_schema = ''cdm'', results_schema = ''results'',
          export_folder = [''tmp'']\<rparr> \<lparr>node_id = 12, task_id = 34\<rparr> [5, 6] [''A''] [] [] [] =
       (Inl ValueError,
        [CohortExpressionFromJson 5, CreateGenerateOptions True, BuildCohortQuery 5 1,
         CohortExpressionFromJson 6, CreateGenerateOptions True, BuildCohortQuery 6 1])"
proof -
  have l: "length [''A''] \<noteq> length [5 :: nat, 6]" by simp
  from name_count_mismatch_fails_before_database [OF l, of example_world 0
      "\<lparr>cdm_schema = ''cdm'', results_schema = ''results'', export_folder = [''tmp'']\<rparr>"
      "\<lparr>node_id = 12, task_id = 34\<rparr>" "[]" "[]" "[]"]
  obtain e cs where
    "cohort_diagnostics example_world 0 \<lparr>cdm_schema = ''cdm'', results_schema = ''results'',
          export_folder = [''tmp'']\<rparr> \<lparr>node_id = 12, task_id = 34\<rparr> [5, 6] [''A''] [] [] [] =
       (Inl e, [] @ cs)"
    and "\<forall>ids sqls h1.
               cohort_ids \<lparr>node_id = 12, task_id = 34\<rparr> (length [5 :: nat, 6]) = Inr ids
               \<and> create_queries example_world [5, 6] [] = (Inr sqls, h1)
               \<longrightarrow> e = ValueError \<and> [] @ cs = h1"
    by blast
  with example_ids example_queries l show ?thesis by auto
qed

lemma cohort_diagnostics_Inr:
  assumes "cohort_diagnostics W connection meta_omop meta_run cohort_definitions cohort_names
             temporal_covariate_settings diagnostics_settings h = (Inr r, h')"
  shows "\<exists>rows h1 table_names r_rows args df.
           cohort_definition_set W meta_run cohort_definitions cohort_names h = (Inr rows, h1)
         \<and> h' = (h1 @ [GetCohortTableNames (cohort_table meta_run),
                        CreateCohortTables connection (results_schema meta_omop) table_names,
                        ConvertToR rows,
                        GenerateCohortSet connection (cdm_schema meta_omop)
                          (results_schema meta_omop) table_names r_rows,
                        CreateTemporalCovariateSettings temporal_covariate_settings])
                @ [ExecuteDiagnostics args,
                   ReadCsv (export_folder meta_omop @ [''exports'', ''incidence_rate.csv''])]
         \<and> execute_diagnostics W
               (h1 @ [GetCohortTableNames (cohort_table meta_run),
                      CreateCohortTables connection (results_schema meta_omop) table_names,
                      ConvertToR rows,
                      GenerateCohortSet connection (cdm_schema meta_omop)
                        (results_schema meta_omop) table_names r_rows,
                      CreateTemporalCovariateSettings temporal_covariate_settings])
               args = Inr ()
         \<and> read_csv W
               ((h1 @ [GetCohortTableNames (cohort_table meta_run),
                       CreateCohortTables connection (results_schema meta_omop) table_names,
                       ConvertToR rows,
                       GenerateCohortSet connection (cdm_schema meta_omop)
                         (results_schema meta_omop) table_names r_rows,
                       CreateTemporalCovariateSettings temporal_covariate_settings])
                @ [ExecuteDiagnostics args])
               (export_folder meta_omop @ [''exports'', ''incidence_rate.csv'']) = Inr df
         \<and> to_json W df = Inr r"
  using assms unfolding cohort_diagnostics_def ext_call_def
  by (auto simp: Let_def split: prod.splits sum.splits if_splits)

lemma example_definition_set:
  "cohort_definition_set example_world \<lparr>node_id = 12, task_id = 34\<rparr> [5, 6] [''A'', ''B''] [] =
     (Inr [\<lparr>cohortId = Finite 120034000, cohortName = ''A'', json = 5, sql = ''qqqqq'',
            logicDescription = None, generateStats = True\<rparr>,
           \<lparr>cohortId = Finite 120034001, cohortName = ''B'', json = 6, sql = ''qqqqqq'',
            logicDescription = None, generateStats = True\<rparr>],
      [CohortExpressionFromJson 5, CreateGenerateOptions True, BuildCohortQuery 5 1,
       CohortExpressionFromJson 6, CreateGenerateOptions True, BuildCohortQuery 6 1])"
proof -
  have u: "[0..<2] = [0, Suc 0]" by (simp add: upt_rec)
  have "DataFrame [Finite 120034000, Finite 120034001] [''A'', ''B''] [5 :: nat, 6]
          [''qqqqq'', ''qqqqqq''] (replicate (length [5 :: nat, 6]) None)
          (replicate (length [5 :: nat, 6]) True) =
        Inr [\<lparr>cohortId = Finite 120034000, cohortName = ''A'', json = 5, sql = ''qqqqq'',
               logicDescription = None, generateStats = True\<rparr>,
             \<lparr>cohortId = Finite 120034001, cohortName = ''B'', json = 6, sql = ''qqqqqq'',
               logicDescription = None, generateStats = True\<rparr>]"
    by (simp add: DataFrame_def u eval_nat_numeral)
  then show ?thesis
    unfolding cohort_definition_set_def Let_def
    by (simp only: example_ids example_queries sum.case prod.case)
qed

lemma example_table: "cohort_table \<lparr>node_id = 12, task_id = 34\<rparr> = ''cohort_34_12''"
proof -
  have "digits_of 34 = ''34''" and "digits_of 12 = ''12''"
    by (simp_all add: digits_of.simps digit_char_def)
  then show ?thesis by (simp add: cohort_table_def str_int_def)
qed

lemma example_database_name: "fmt_0d 6 34 = ''000034''"
proof -
  have "digits_of 34 = ''34''" by (simp add: digits_of.simps digit_char_def)
  moreover have "replicate 4 CHR ''0'' = ''0000''" by (simp add: eval_nat_numeral)
  ultimately show ?thesis by (simp add: fmt_0d_nonneg)
qed

text \<open>
  C7. Once the diagnostics call has completed (the table was built, the cohort tables were
  named and created, the cohort set was generated, the temporal settings were made, no
  caller's option repeats a named keyword, and \<open>execute_diagnostics\<close> returned), the worker
  makes exactly one more outside call, the read of \<open>incidence_rate.csv\<close> in the \<open>exports\<close>
  folder of the export folder, and returns what \<open>to_json\<close> gives for the frame read (the
  error of the read when the read fails). Conversely every value the worker returns arises
  this way: it is the serialization of the frame of that read, the read is the last outside
  call, it follows directly on a diagnostics call that completed, and it is the only file
  the run reads.
\<close>

theorem worker_returns_serialized_export:
  fixes W :: "('j, 'v, 'r, 'd) world"
  shows
  "(cohort_definition_set W meta_run cohort_definitions cohort_names h = (Inr rows, h1)
    \<and> get_cohort_table_names W (cohort_table meta_run) = Inr table_names
    \<and> create_cohort_tables W (h1 @ [GetCohortTableNames (cohort_table meta_run)])
          connection (results_schema meta_omop) table_names = Inr ()
    \<and> convert_to_r W rows = Inr r_rows
    \<and> generate_cohort_set W
          (h1 @ [GetCohortTableNames (cohort_table meta_run),
                 CreateCohortTables connection (results_schema meta_omop) table_names,
                 ConvertToR rows])
          connection (cdm_schema meta_omop) (results_schema meta_omop) table_names r_rows
        = Inr ()
    \<and> create_temporal_covariate_settings W temporal_covariate_settings = Inr r_settings
    \<and> (\<forall>k \<in> set (map fst diagnostics_settings). k \<notin> set named_keywords)
    \<and> pre = h1 @ [GetCohortTableNames (cohort_table meta_run),
                   CreateCohortTables connection (results_schema meta_omop) table_names,
                   ConvertToR rows,
                   GenerateCohortSet connection (cdm_schema meta_omop)
                     (results_schema meta_omop) table_names r_rows,
                   CreateTemporalCovariateSettings temporal_covariate_settings]
    \<and> args = \<lparr>kw_cohort_definition_set = r_rows,
                kw_export_folder = export_folder meta_omop @ [''exports''],
                kw_database_id = task_id meta_run,
                kw_database_name = fmt_0d 6 (task_id meta_run),
                kw_database_description = ''todo'',
                kw_cohort_database_schema = results_schema meta_omop,
                kw_connection = connection,
                kw_cdm_database_schema = cdm_schema meta_omop,
                kw_cohort_table = cohort_table meta_run,
                kw_cohort_table_names = table_names,
                kw_vocabulary_database_schema = cdm_schema meta_omop,
                kw_cohort_ids = None,
                kw_cdm_version = 5,
                kw_temporal_covariate_settings = r_settings,
                kw_more = diagnostics_settings\<rparr>
    \<and> execute_diagnostics W pre args = Inr ()
    \<longrightarrow>
      cohort_diagnostics W connection meta_omop meta_run cohort_definitions cohort_names
        temporal_covariate_settings diagnostics_settings h =
        (case read_csv W (pre @ [ExecuteDiagnostics args])
                (export_folder meta_omop @ [''exports'', ''incidence_rate.csv'']) of
           Inl e \<Rightarrow> Inl e
         | Inr df \<Rightarrow> to_json W df,
         pre @ [ExecuteDiagnostics args,
                ReadCsv (export_folder meta_omop @ [''exports'', ''incidence_rate.csv''])]))
   \<and> (cohort_diagnostics W connection meta_omop meta_run cohort_definitions cohort_names
         temporal_covariate_settings diagnostics_settings h = (Inr r, h')
       \<longrightarrow>
        (\<exists>before arguments df.
           h' = before @ [ExecuteDiagnostics arguments,
                          ReadCsv (export_folder meta_omop @ [''exports'', ''incidence_rate.csv''])]
         \<and> length h \<le> length before
         \<and> execute_diagnostics W before arguments = Inr ()
         \<and> read_csv W (before @ [ExecuteDiagnostics arguments])
               (export_folder meta_omop @ [''exports'', ''incidence_rate.csv'']) = Inr df
         \<and> to_json W df = Inr r
         \<and> csv_reads (drop (length h) h')
               = [export_folder meta_omop @ [''exports'', ''incidence_rate.csv'']]))"
proof (intro conjI impI)
  assume a: "cohort_definition_set W meta_run cohort_definitions cohort_names h = (Inr rows, h1)
    \<and> get_cohort_table_names W (cohort_table meta_run) = Inr table_names
    \<and> create_cohort_tables W (h1 @ [GetCohortTableNames (cohort_table meta_run)])
          connection (results_schema meta_omop) table_names = Inr ()
    \<and> convert_to_r W rows = Inr r_rows
    \<and> generate_cohort_set W
          (h1 @ [GetCohortTableNames (cohort_table meta_run),
                 CreateCohortTables connection (results_schema meta_omop) table_names,
                 ConvertToR rows])
          connection (cdm_schema meta_omop) (results_schema meta_omop) table_names r_rows
        = Inr ()
    \<and> create_temporal_covariate_settings W temporal_covariate_settings = Inr r_settings
    \<and> (\<forall>k \<in> set (map fst diagnostics_settings). k \<notin> set named_keywords)
    \<and> pre = h1 @ [GetCohortTableNames (cohort_table meta_run),
                   CreateCohortTables connection (results_schema meta_omop) table_names,
                   ConvertToR rows,
                   GenerateCohortSet connection (cdm_schema meta_omop)
                     (results_schema meta_omop) table_names r_rows,
                   CreateTemporalCovariateSettings temporal_covariate_settings]
    \<and> args = \<lparr>kw_cohort_definition_set = r_rows,
                kw_export_folder = export_folder meta_omop @ [''exports''],
                kw_database_id = task_id meta_run,
                kw_database_name = fmt_0d 6 (task_id meta_run),
                kw_database_description = ''todo'',
                kw_cohort_database_schema = results_schema meta_omop,
                kw_connection = connection,
                kw_cdm_database_schema = cdm_schema meta_omop,
                kw_cohort_table = cohort_table meta_run,
                kw_cohort_table_names = table_names,
                kw_vocabulary_database_schema = cdm_schema meta_omop,
                kw_cohort_ids = None,
                kw_cdm_version = 5,
                kw_temporal_covariate_settings = r_settings,
                kw_more = diagnostics_settings\<rparr>
    \<and> execute_diagnostics W pre args = Inr ()"
  from a show "cohort_diagnostics W connection meta_omop meta_run cohort_definitions cohort_names
        temporal_covariate_settings diagnostics_settings h =
        (case read_csv W (pre @ [ExecuteDiagnostics args])
                (export_folder meta_omop @ [''exports'', ''incidence_rate.csv'']) of
           Inl e \<Rightarrow> Inl e
         | Inr df \<Rightarrow> to_json W df,
         pre @ [ExecuteDiagnostics args,
                ReadCsv (export_folder meta_omop @ [''exports'', ''incidence_rate.csv''])])"
    unfolding cohort_diagnostics_def ext_call_def
    by (clarsimp simp: Let_def split: sum.splits)
next
  assume assms: "cohort_diagnostics W connection meta_omop meta_run cohort_definitions
      cohort_names temporal_covariate_settings diagnostics_settings h = (Inr r, h')"
  show "\<exists>before arguments df.
           h' = before @ [ExecuteDiagnostics arguments,
                          ReadCsv (export_folder meta_omop @ [''exports'', ''incidence_rate.csv''])]
         \<and> length h \<le> length before
         \<and> execute_diagnostics W before arguments = Inr ()
         \<and> read_csv W (before @ [ExecuteDiagnostics arguments])
               (export_folder meta_omop @ [''exports'', ''incidence_rate.csv'']) = Inr df
         \<and> to_json W df = Inr r
         \<and> csv_reads (drop (length h) h')
               = [export_folder meta_omop @ [''exports'', ''incidence_rate.csv'']]"
  proof -
    let ?path = "export_folder meta_omop @ [''exports'', ''incidence_rate.csv'']"
    from cohort_diagnostics_Inr [OF assms]
    obtain table :: "'j cohort_row list" and g1 :: "('j, 'v, 'r) call list"
      and names r_table :: 'r and arguments :: "('v, 'r) diagnostics_args" and df :: 'd
      where s: "cohort_definition_set W meta_run cohort_definitions cohort_names h
                  = (Inr table, g1)"
        and h': "h' = (g1 @ [GetCohortTableNames (cohort_table meta_run),
                        CreateCohortTables connection (results_schema meta_omop) names,
                        ConvertToR table,
                        GenerateCohortSet connection (cdm_schema meta_omop)
                          (results_schema meta_omop) names r_table,
                        CreateTemporalCovariateSettings temporal_covariate_settings])
                    @ [ExecuteDiagnostics arguments, ReadCsv ?path]"
        and e: "execute_diagnostics W
                  (g1 @ [GetCohortTableNames (cohort_table meta_run),
                        CreateCohortTables connection (results_schema meta_omop) names,
                        ConvertToR table,
                        GenerateCohortSet connection (cdm_schema meta_omop)
                          (results_schema meta_omop) names r_table,
                        CreateTemporalCovariateSettings temporal_covariate_settings])
                  arguments = Inr ()"
        and c: "read_csv W
                  ((g1 @ [GetCohortTableNames (cohort_table meta_run),
                        CreateCohortTables connection (results_schema meta_omop) names,
                        ConvertToR table,
                        GenerateCohortSet connection (cdm_schema meta_omop)
                          (results_schema meta_omop) names r_table,
                        CreateTemporalCovariateSettings temporal_covariate_settings])
                   @ [ExecuteDiagnostics arguments]) ?path = Inr df"
        and j: "to_json W df = Inr r"
      by (elim exE conjE) (rule that; assumption)
    let ?before = "g1 @ [GetCohortTableNames (cohort_table meta_run),
                      CreateCohortTables connection (results_schema meta_omop) names,
                      ConvertToR table,
                      GenerateCohortSet connection (cdm_schema meta_omop)
                        (results_schema meta_omop) names r_table,
                      CreateTemporalCovariateSettings temporal_covariate_settings]"
    from s cohort_definition_set_calls [of W meta_run cohort_definitions cohort_names h]
    obtain cs where g1: "g1 = h @ cs" and cc: "list_all circe_call cs" by auto
    have "csv_reads cs = []" using cc by (rule circe_call_no_read)
    then have k: "csv_reads (drop (length h) h') = [?path]"
      unfolding h' g1 by (simp add: csv_reads_append)
    have l: "length h \<le> length ?before" unfolding g1 by simp
    show ?thesis
      apply (rule exI [of _ ?before])
      apply (rule exI [of _ arguments])
      apply (rule exI [of _ df])
      apply (intro conjI)
           apply (rule h')
          apply (rule l)
         apply (rule e)
        apply (rule c)
       apply (rule j)
      apply (rule k)
      done
  qed
qed

theorem worker_returns_serialized_export_witness:
  "cohort_definition_set example_world \<lparr>node_id = 12, task_id = 34\<rparr> [5, 6] [''A'', ''B''] [] =
     (Inr [\<lparr>cohortId = Finite 120034000, cohortName = ''A'', json = 5, sql = ''qqqqq'',
            logicDescription = None, generateStats = True\<rparr>,
           \<lparr>cohortId = Finite 120034001, cohortName = ''B'', json = 6, sql = ''qqqqqq'',
            logicDescription = None, generateStats = True\<rparr>],
      [CohortExpressionFromJson 5, CreateGenerateOptions True, BuildCohortQuery 5 1,
       CohortExpressionFromJson 6, CreateGenerateOptions True, BuildCohortQuery 6 1])
   \<and> ''min_cell_count'' \<notin> set named_keywords
   \<and> cohort_diagnostics example_world 0
       \<lparr>cdm_schema = ''cdm'', results_schema = ''results'', export_folder = [''tmp'']\<rparr>
       \<lparr>node_id = 12, task_id = 34\<rparr> [5, 6] [''A'', ''B''] [(''t'', 1)]
       [(''min_cell_count'', 5)] []
     = (Inr ''{rate}'',
        [CohortExpressionFromJson 5, CreateGenerateOptions True, BuildCohortQuery 5 1,
         CohortExpressionFromJson 6, CreateGenerateOptions True, BuildCohortQuery 6 1,
         GetCohortTableNames ''cohort_34_12'',
         CreateCohortTables 0 ''results'' 7,
         ConvertToR [\<lparr>cohortId = Finite 120034000, cohortName = ''A'', json = 5,
                       sql = ''qqqqq'', logicDescription = None, generateStats = True\<rparr>,
                     \<lparr>cohortId = Finite 120034001, cohortName = ''B'', json = 6,
                       sql = ''qqqqqq'', logicDescription = None, generateStats = True\<rparr>],
         GenerateCohortSet 0 ''cdm'' ''results'' 7 2,
         CreateTemporalCovariateSettings [(''t'', 1)],
         ExecuteDiagnostics
           \<lparr>kw_cohort_definition_set = 2, kw_export_folder = [''tmp'', ''exports''],
            kw_database_id = 34, kw_database_name = ''000034'',
            kw_database_description = ''todo'', kw_cohort_database_schema = ''results'',
            kw_connection = 0, kw_cdm_database_schema = ''cdm'',
            kw_cohort_table = ''cohort_34_12'', kw_cohort_table_names = 7,
            kw_vocabulary_database_schema = ''cdm'', kw_cohort_ids = None, kw_cdm_version = 5,
            kw_temporal_covariate_settings = 8, kw_more = [(''min_cell_count'', 5)]\<rparr>,
         ReadCsv [''tmp'', ''exports'', ''incidence_rate.csv'']])
   \<and> (\<exists>df. read_csv example_world
              [CohortExpressionFromJson 5, CreateGenerateOptions True, BuildCohortQuery 5 1,
               CohortExpressionFromJson 6, CreateGenerateOptions True, BuildCohortQuery 6 1,
               GetCohortTableNames ''cohort_34_12'',
               CreateCohortTables 0 ''results'' 7,
               ConvertToR [\<lparr>cohortId = Finite 120034000, cohortName = ''A'', json = 5,
                             sql = ''qqqqq'', logicDescription = None, generateStats = True\<rparr>,
                           \<lparr>cohortId = Finite 120034001, cohortName = ''B'', json = 6,
                             sql = ''qqqqqq'', logicDescription = None,
                             generateStats = True\<rparr>],
               GenerateCohortSet 0 ''cdm'' ''results'' 7 2,
               CreateTemporalCovariateSettings [(''t'', 1)],
               ExecuteDiagnostics
                 \<lparr>kw_cohort_definition_set = 2, kw_export_folder = [''tmp'', ''exports''],
                  kw_database_id = 34, kw_database_name = ''000034'',
                  kw_database_description = ''todo'', kw_cohort_database_schema = ''results'',
                  kw_connection = 0, kw_cdm_database_schema = ''cdm'',
                  kw_cohort_table = ''cohort_34_12'', kw_cohort_table_names = 7,
                  kw_vocabulary_database_schema = ''cdm'', kw_cohort_ids = None,
                  kw_cdm_version = 5, kw_temporal_covariate_settings = 8,
                  kw_more = [(''min_cell_count'', 5)]\<rparr>]
              [''tmp'', ''exports'', ''incidence_rate.csv''] = Inr df
            \<and> to_json example_world df = Inr ''{rate}'')"
proof -
  let ?rows = "[\<lparr>cohortId = Finite 120034000, cohortName = ''A'', json = 5 :: nat,
                  sql = ''qqqqq'', logicDescription = None, generateStats = True\<rparr>,
                \<lparr>cohortId = Finite 120034001, cohortName = ''B'', json = 6,
                  sql = ''qqqqqq'', logicDescription = None, generateStats = True\<rparr>]"
  let ?h1 = "[CohortExpressionFromJson 5, CreateGenerateOptions True, BuildCohortQuery 5 1,
              CohortExpressionFromJson 6, CreateGenerateOptions True, BuildCohortQuery 6 1]
             :: (nat, nat, nat) call list"
  let ?args = "\<lparr>kw_cohort_definition_set = 2 :: nat, kw_export_folder = [''tmp'', ''exports''],
            kw_database_id = 34, kw_database_name = ''000034'',
            kw_database_description = ''todo'', kw_cohort_database_schema = ''results'',
            kw_connection = 0, kw_cdm_database_schema = ''cdm'',
            kw_cohort_table = ''cohort_34_12'', kw_cohort_table_names = 7,
            kw_vocabulary_database_schema = ''cdm'', kw_cohort_ids = None, kw_cdm_version = 5,
            kw_temporal_covariate_settings = 8, kw_more = [(''min_cell_count'', 5 :: nat)]\<rparr>"
  let ?pre = "?h1 @ [GetCohortTableNames ''cohort_34_12'',
                     CreateCohortTables 0 ''results'' 7,
                     ConvertToR ?rows,
                     GenerateCohortSet 0 ''cdm'' ''results'' 7 2,
                     CreateTemporalCovariateSettings [(''t'', 1)]]"
  have k: "\<forall>k \<in> set (map fst [(''min_cell_count'', 5 :: nat)]). k \<notin> set named_keywords"
    by (simp add: named_keywords_def)
  have forward: "cohort_diagnostics example_world 0
       \<lparr>cdm_schema = ''cdm'', results_schema = ''results'', export_folder = [''tmp'']\<rparr>
       \<lparr>node_id = 12, task_id = 34\<rparr> [5, 6] [''A'', ''B''] [(''t'', 1)]
       [(''min_cell_count'', 5)] []
     = (Inr ''{rate}'', ?pre @ [ExecuteDiagnostics ?args,
                                ReadCsv [''tmp'', ''exports'', ''incidence_rate.csv'']])"
    using worker_returns_serialized_export [where W = example_world
        and meta_run = "\<lparr>node_id = 12, task_id = 34\<rparr>"
        and meta_omop = "\<lparr>cdm_schema = ''cdm'', results_schema = ''results'',
                           export_folder = [''tmp'']\<rparr>"
        and cohort_definitions = "[5, 6]" and cohort_names = "[''A'', ''B'']" and h = "[]"
        and rows = ?rows and ?h1.0 = ?h1 and table_names = 7 and connection = 0 and r_rows = 2
        and temporal_covariate_settings = "[(''t'', 1)]" and r_settings = 8
        and diagnostics_settings = "[(''min_cell_count'', 5)]" and pre = ?pre and args = ?args,
        THEN conjunct1]
      example_definition_set k
    by (simp add: example_table example_database_name example_world_def)
  from worker_returns_serialized_export [where W = example_world and h = "[]",
      THEN conjunct2, THEN mp, OF forward]
  obtain before arguments df where
    "?pre @ [ExecuteDiagnostics ?args, ReadCsv [''tmp'', ''exports'', ''incidence_rate.csv'']]
       = before @ [ExecuteDiagnostics arguments,
                   ReadCsv (export_folder \<lparr>cdm_schema = ''cdm'', results_schema = ''results'',
                              export_folder = [''tmp'']\<rparr> @ [''exports'', ''incidence_rate.csv''])]"
    and "read_csv example_world (before @ [ExecuteDiagnostics arguments])
           (export_folder \<lparr>cdm_schema = ''cdm'', results_schema = ''results'',
                              export_folder = [''tmp'']\<rparr> @ [''exports'', ''incidence_rate.csv''])
         = Inr df"
    and "to_json example_world df = Inr ''{rate}''"
    by blast
  then have "read_csv example_world (?pre @ [ExecuteDiagnostics ?args])
               [''tmp'', ''exports'', ''incidence_rate.csv''] = Inr df
             \<and> to_json example_world df = Inr ''{rate}''"
    by simp
  moreover have "''min_cell_count'' \<notin> set named_keywords"
    by (simp add: named_keywords_def)
  ultimately show ?thesis using forward example_definition_set by auto
qed

end
